theory Spec2Isabelle
  imports Complex_Main "HOL-Library.Char_ord" "HOL-Library.List_Lexorder" "HOL-Library.Multiset"
begin

unbundle bit_operations_syntax

section \<open>Python and numpy primitives used by pd2ppc.py\<close>

text \<open>
  The exceptions the modelled code can raise. A function of the source that can raise
  returns \<open>py_error + 'a\<close>, with \<open>Inl\<close> for the exception.
\<close>

datatype py_error =
    IndexError
  | KeyError string
  | ValueError string
  | TypeError string
  | UnboundLocalError string

fun py_bind :: "py_error + 'a \<Rightarrow> ('a \<Rightarrow> py_error + 'b) \<Rightarrow> py_error + 'b" where
  "py_bind (Inl e) f = Inl e"
| "py_bind (Inr x) f = f x"

text \<open>
  The float tables of the case hold reals; \<open>astype(int)\<close> truncates towards zero.
\<close>

definition astype_int :: "real \<Rightarrow> int" where
  "astype_int x = (if 0 \<le> x then \<lfloor>x\<rfloor> else \<lceil>x\<rceil>)"

text \<open>
  An index into an axis of length \<open>n\<close>: numpy counts a negative index from the end and
  raises IndexError outside \<open>[-n, n)\<close>.
\<close>

definition np_index :: "nat \<Rightarrow> int \<Rightarrow> py_error + nat" where
  "np_index n i =
     (if 0 \<le> i \<and> i < int n then Inr (nat i)
      else if - int n \<le> i \<and> i < 0 then Inr (nat (int n + i))
      else Inl IndexError)"

text \<open>\<open>a[idx]\<close> with an integer index array.\<close>

fun np_take :: "'a list \<Rightarrow> int list \<Rightarrow> py_error + 'a list" where
  "np_take a [] = Inr []"
| "np_take a (i # js) =
     py_bind (np_index (length a) i) (\<lambda>k.
     py_bind (np_take a js) (\<lambda>ys. Inr (a ! k # ys)))"

text \<open>\<open>a[idx] = vals\<close> with an integer index array: the writes happen in order, so the
  last write to a position wins.\<close>

fun np_put_seq :: "'a list \<Rightarrow> int list \<Rightarrow> 'a list \<Rightarrow> py_error + 'a list" where
  "np_put_seq a (i # js) (v # vs) =
     py_bind (np_index (length a) i) (\<lambda>k. np_put_seq (a[k := v]) js vs)"
| "np_put_seq a _ _ = Inr a"

definition np_put :: "'a list \<Rightarrow> int list \<Rightarrow> 'a list \<Rightarrow> py_error + 'a list" where
  "np_put a idx vals =
     (if length idx \<noteq> length vals then Inl (ValueError ''shape mismatch'')
      else np_put_seq a idx vals)"

text \<open>\<open>a[mask]\<close> with a boolean mask: the mask must have the length of the axis.\<close>

definition np_mask :: "'a list \<Rightarrow> bool list \<Rightarrow> py_error + 'a list" where
  "np_mask a m =
     (if length m \<noteq> length a then Inl IndexError
      else Inr (map fst (filter snd (zip a m))))"

text \<open>\<open>a[mask] = vals\<close>: the values go, in order, to the positions where the mask holds.\<close>

fun np_mask_put :: "'a list \<Rightarrow> bool list \<Rightarrow> 'a list \<Rightarrow> 'a list" where
  "np_mask_put (x # xs) (True # ms) (v # vs) = v # np_mask_put xs ms vs"
| "np_mask_put (x # xs) (False # ms) vs = x # np_mask_put xs ms vs"
| "np_mask_put xs _ _ = xs"

section \<open>The data model: the case tables and the network\<close>

text \<open>
  The index constants of the tables come from \<open>pandapower.idx_bus\<close>,
  \<open>idx_brch\<close>, \<open>idx_gen\<close> and \<open>idx_area\<close>, which are not in this file; a row is a
  record with one field for each column the code names. The bus and generator tables are
  float arrays (reals here), the branch table is \<open>complex128\<close>.
\<close>

record bus_row =
  BUS_I :: real
  BUS_TYPE :: real
  GS :: real
  BS :: real
  BASE_KV :: real
  C_MAX :: real
  C_MIN :: real

text \<open>The bus-type tag of an isolated bus (\<open>idx_bus.NONE\<close>, 4 in the PYPOWER format).\<close>

definition NONE :: real where
  "NONE = 4"

record branch_row =
  F_BUS :: complex
  T_BUS :: complex
  BR_R :: complex
  BR_X :: complex
  BR_B :: complex
  RATE_A :: complex
  RATE_B :: complex
  RATE_C :: complex
  TAP :: complex
  SHIFT :: complex
  BR_STATUS :: complex
  ANGMIN :: complex
  ANGMAX :: complex

record gen_row =
  GEN_BUS :: real
  PG :: real
  VG :: real
  GEN_STATUS :: real

record area_row =
  AREA_I :: real
  PRICE_REF_BUS :: real

text \<open>\<open>ppc["internal"]\<close>: the cache slots that \<open>_init_ppc\<close> creates.\<close>

record internal_cache =
  Ybus :: "complex list"
  Yf :: "complex list"
  Yt :: "complex list"
  branch_is :: "bool list"
  gen_is :: "bool list"
  DLF :: "complex list"
  buses_ord_bfs_nets :: "real list"

text \<open>
  The case dict. The keys \<open>areas\<close>, \<open>dcline\<close>, \<open>userfcn\<close> and \<open>sequence\<close> may be
  absent (\<open>None\<close>); a dcline table and the registered callbacks are opaque here.
\<close>

record ppc =
  baseMVA :: real
  version :: int
  bus :: "bus_row list"
  branch :: "branch_row list"
  gen :: "gen_row list"
  internal :: internal_cache
  areas :: "area_row list option"
  dcline :: "real list option"
  userfcn :: "nat option"
  sequence :: "int option"

text \<open>The rows of \<open>net.trafo\<close>, \<open>net.line\<close> and the table \<open>net.ext_grid\<close>, whose float columns
  are kept by name because the code tests whether a column is present.\<close>

record trafo_row =
  vector_group :: string
  vsc_percent :: real
  vscr_percent :: real
  sn_kva :: real
  vsc0_percent :: real
  vscr0_percent :: real
  lv_bus :: int
  hv_bus :: int
  mag0_percent :: real
  mag0_rx :: real
  si0_hv_partial :: real
  parallel :: real
  in_service :: bool

record line_row =
  from_bus :: int
  to_bus :: int
  length_km :: real
  line_parallel :: real
  r0_ohm_per_km :: real
  x0_ohm_per_km :: real
  c0_nf_per_km :: real
  line_in_service :: bool

record ext_grid_table =
  eg_bus :: "int list"
  eg_float :: "string \<rightharpoonup> real list"

text \<open>
  \<open>net["_pd2ppc_lookups"]\<close>: the array lookups by element name (bus, ext_grid, gen, ...),
  each an integer array with a negative entry for "not present", and the branch lookup,
  a dict from the branch kind to its row range \<open>(f, t)\<close>.
\<close>

record pd2ppc_lookups =
  array_lookup :: "string \<rightharpoonup> int list"
  branch_lookup :: "string \<rightharpoonup> int \<times> int"

text \<open>
  \<open>net["_is_elements"]\<close>: boolean in-service masks for \<open>ext_grid\<close> and \<open>gen\<close>, and, when
  present, the frames of the controllable elements, of which the code reads the index.
\<close>

record is_elements =
  is_mask :: "string \<rightharpoonup> bool list"
  is_frame_index :: "string \<rightharpoonup> int list"

record pp_net =
  net_sn_kva :: real
  net_f_hz :: real
  opt_mode :: string
  opt_case :: "string option"
  opt_recycle_Ybus :: bool
  lookups :: pd2ppc_lookups
  net_is_elements :: is_elements
  element_index :: "string \<rightharpoonup> int list"
  trafo :: "trafo_row list"
  ext_grid :: ext_grid_table
  line :: "line_row list"
  net_ppc :: "string \<rightharpoonup> ppc"

text \<open>The key of the stored case: \<open>"_ppc"\<close>, or \<open>"_ppc%s" % sequence\<close> for the sequences
  0, 1 and 2.\<close>

definition ppc_key :: "int option \<Rightarrow> string" where
  "ppc_key seq = (case seq of None \<Rightarrow> ''_ppc'' | Some q \<Rightarrow> ''_ppc'' @ [char_of (48 + q)])"

text \<open>
  \<^verbatim>\<open>
  def _init_ppc(net, sequence=None):
      ppc = {"baseMVA": net.sn_kva * 1e-3, "version": 2, "bus": np.array([]), ...
             "internal": {"Ybus": ..., "branch_is": np.array([], dtype=bool),
                          "gen_is": np.array([], dtype=bool), ...}}
      if sequence is None: net["_ppc"] = ppc
      else: ppc["sequence"] = int(sequence); net["_ppc%s"%sequence] = ppc
      return ppc
  \<close>
  The sequence is 0, 1 or 2 where it is given, so its decimal text is one digit.
\<close>

definition init_ppc :: "pp_net \<Rightarrow> int option \<Rightarrow> ppc \<times> pp_net" where
  "init_ppc net seq =
     (let ppc0 = \<lparr>baseMVA = net_sn_kva net * (1 / 1000), version = 2, bus = [], branch = [],
                  gen = [],
                  internal = \<lparr>Ybus = [], Yf = [], Yt = [], branch_is = [], gen_is = [],
                              DLF = [], buses_ord_bfs_nets = []\<rparr>,
                  areas = None, dcline = None, userfcn = None, sequence = None\<rparr>
      in case seq of
           None \<Rightarrow> (ppc0, net\<lparr>net_ppc := (net_ppc net)(''_ppc'' \<mapsto> ppc0)\<rparr>)
         | Some q \<Rightarrow>
             (let ppc1 = ppc0\<lparr>sequence := Some q\<rparr>
              in (ppc1, net\<lparr>net_ppc := (net_ppc net)
                    (ppc_key (Some q) \<mapsto> ppc1)\<rparr>)))"

section \<open>Lookup tables\<close>

text \<open>\<open>aux._write_lookup_to_net(net, element, lookup)\<close> stores the array under the
  element's name.\<close>

definition write_lookup_to_net :: "pp_net \<Rightarrow> string \<Rightarrow> int list \<Rightarrow> pp_net" where
  "write_lookup_to_net net element lookup =
     net\<lparr>lookups := (lookups net)\<lparr>array_lookup := (array_lookup (lookups net))(element \<mapsto> lookup)\<rparr>\<rparr>"

text \<open>
  \<^verbatim>\<open>
  def _update_lookup_entries(net, lookup, e2i, element):
      valid_bus_lookup_entries = lookup >= 0
      lookup[valid_bus_lookup_entries] = e2i[lookup[valid_bus_lookup_entries]]
      aux._write_lookup_to_net(net, element, lookup)
  \<close>
  The array is changed in place and stored; the model returns it with the network.
\<close>

definition update_lookup_entries ::
  "pp_net \<Rightarrow> int list \<Rightarrow> int list \<Rightarrow> string \<Rightarrow> py_error + (int list \<times> pp_net)" where
  "update_lookup_entries net lookup e2i element =
     (let valid_bus_lookup_entries = map (\<lambda>v. 0 \<le> v) lookup in
      py_bind (np_mask lookup valid_bus_lookup_entries) (\<lambda>old.
      py_bind (np_take e2i old) (\<lambda>new.
        let lookup' = np_mask_put lookup valid_bus_lookup_entries new
        in Inr (lookup', write_lookup_to_net net element lookup'))))"

text \<open>
  \<^verbatim>\<open>
  def _build_gen_lookups(net, element, ppc_start_index, ppc_end_index, sort_gens):
      _is_elements = net["_is_elements"]
      if element in ["sgen_controllable", "load_controllable", "storage_controllable"]:
          pandapower_index = net["_is_elements"][element].index.values
      else:
          pandapower_index = net[element].index.values[_is_elements[element]]
      ppc_index = sort_gens[ppc_start_index: ppc_end_index]
      lookup = -np.ones(max(pandapower_index) + 1, dtype=int)
      lookup[pandapower_index] = ppc_index
      aux._write_lookup_to_net(net, element, lookup)
  \<close>
\<close>

definition py_get :: "('k \<rightharpoonup> 'v) \<Rightarrow> 'k \<Rightarrow> string \<Rightarrow> py_error + 'v" where
  "py_get d k name = (case d k of None \<Rightarrow> Inl (KeyError name) | Some v \<Rightarrow> Inr v)"

definition build_gen_lookups ::
  "pp_net \<Rightarrow> string \<Rightarrow> nat \<Rightarrow> nat \<Rightarrow> int list \<Rightarrow> py_error + pp_net" where
  "build_gen_lookups net element ppc_start_index ppc_end_index sort_gens =
     py_bind
       (if element \<in> set [''sgen_controllable'', ''load_controllable'', ''storage_controllable'']
        then py_get (is_frame_index (net_is_elements net)) element element
        else py_bind (py_get (element_index net) element element) (\<lambda>index_values.
             py_bind (py_get (is_mask (net_is_elements net)) element element) (\<lambda>m.
               np_mask index_values m)))
       (\<lambda>pandapower_index.
          let ppc_index = take (ppc_end_index - ppc_start_index) (drop ppc_start_index sort_gens)
          in if pandapower_index = [] then Inl (ValueError ''max() arg is an empty sequence'')
             else if fold max pandapower_index (hd pandapower_index) + 1 < 0
             then Inl (ValueError ''negative dimensions are not allowed'')
             else py_bind
                    (np_put (replicate (nat (fold max pandapower_index (hd pandapower_index) + 1)) (- 1))
                       pandapower_index ppc_index)
                    (\<lambda>lookup. Inr (write_lookup_to_net net element lookup)))"

section \<open>The ppc to ppci compiler\<close>

text \<open>
  \<open>_ppc2ppci(ppc, ppci, net)\<close> changes \<open>ppc\<close> and \<open>net\<close> in place and returns \<open>ppci\<close>;
  the model returns the three. It is written in the order of the source, one definition
  for each block of the function.

  The bus block:
  \<^verbatim>\<open>
      oos_busses = ppc['bus'][:, BUS_TYPE] == NONE
      ppci['bus'] = ppc['bus'][~oos_busses]
      ppc['bus'] = np.r_[ppc['bus'][~oos_busses], ppc['bus'][oos_busses]]
      ppc_former_order = (ppc['bus'][:, BUS_I]).astype(int)
      aranged_buses = np.arange(len(ppc["bus"]))
      e2i = np.zeros(len(ppc["bus"]), dtype=int)
      e2i[ppc_former_order] = aranged_buses
      ppc['bus'][:, BUS_I] = aranged_buses
      ppci['bus'][:, BUS_I] = ppc['bus'][:len(ppci['bus']), BUS_I]
  \<close>
\<close>

definition ppc2ppci_bus :: "ppc \<Rightarrow> ppc \<Rightarrow> py_error + (ppc \<times> ppc \<times> int list)" where
  "ppc2ppci_bus ppc ppci =
     (let oos_busses = (\<lambda>r. BUS_TYPE r = NONE);
          ppci1 = ppci\<lparr>bus := filter (\<lambda>r. \<not> oos_busses r) (bus ppc)\<rparr>;
          ppc1 = ppc\<lparr>bus := filter (\<lambda>r. \<not> oos_busses r) (bus ppc) @ filter oos_busses (bus ppc)\<rparr>;
          ppc_former_order = map (\<lambda>r. astype_int (BUS_I r)) (bus ppc1);
          aranged_buses = map int [0..<length (bus ppc1)]
      in py_bind (np_put (replicate (length (bus ppc1)) 0) ppc_former_order aranged_buses) (\<lambda>e2i.
         let ppc2 = ppc1\<lparr>bus := map2 (\<lambda>r k. r\<lparr>BUS_I := of_int k\<rparr>) (bus ppc1) aranged_buses\<rparr>;
             ppci2 = ppci1\<lparr>bus := map2 (\<lambda>r s. r\<lparr>BUS_I := BUS_I s\<rparr>) (bus ppci1)
                                     (take (length (bus ppci1)) (bus ppc2))\<rparr>
         in Inr (ppc2, ppci2, e2i)))"

text \<open>
  The renumbering of the bus references:
  \<^verbatim>\<open>
      ppc['gen'][:, GEN_BUS] = e2i[np.real(ppc["gen"][:, GEN_BUS]).astype(int)].copy()
      ppc["branch"][:, F_BUS] = e2i[np.real(ppc["branch"][:, F_BUS]).astype(int)].copy()
      ppc["branch"][:, T_BUS] = e2i[np.real(ppc["branch"][:, T_BUS]).astype(int)].copy()
      if 'areas' in ppc:
          ppc["areas"][:, PRICE_REF_BUS] = \
              e2i[np.real(ppc["areas"][:, PRICE_REF_BUS]).astype(int)].copy()
  \<close>
\<close>

definition ppc2ppci_renumber :: "int list \<Rightarrow> ppc \<Rightarrow> py_error + ppc" where
  "ppc2ppci_renumber e2i ppc =
     py_bind (np_take e2i (map (\<lambda>g. astype_int (GEN_BUS g)) (gen ppc))) (\<lambda>gb.
     let ppc1 = ppc\<lparr>gen := map2 (\<lambda>g v. g\<lparr>GEN_BUS := of_int v\<rparr>) (gen ppc) gb\<rparr> in
     py_bind (np_take e2i (map (\<lambda>b. astype_int (Re (F_BUS b))) (branch ppc1))) (\<lambda>fb.
     let ppc2 = ppc1\<lparr>branch := map2 (\<lambda>b v. b\<lparr>F_BUS := of_int v\<rparr>) (branch ppc1) fb\<rparr> in
     py_bind (np_take e2i (map (\<lambda>b. astype_int (Re (T_BUS b))) (branch ppc2))) (\<lambda>tb.
     let ppc3 = ppc2\<lparr>branch := map2 (\<lambda>b v. b\<lparr>T_BUS := of_int v\<rparr>) (branch ppc2) tb\<rparr> in
     case areas ppc3 of
       None \<Rightarrow> Inr ppc3
     | Some ar \<Rightarrow>
         py_bind (np_take e2i (map (\<lambda>a. astype_int (PRICE_REF_BUS a)) ar)) (\<lambda>pb.
         Inr (ppc3\<lparr>areas := Some (map2 (\<lambda>a v. a\<lparr>PRICE_REF_BUS := of_int v\<rparr>) ar pb)\<rparr>)))))"

text \<open>
  The reordering of the generators. \<open>argsort\<close> is numpy's, called with its default kind
  (quicksort), and is a parameter of the model.
  \<^verbatim>\<open>
      sort_gens = ppc['gen'][:, GEN_BUS].argsort()
      new_gen_positions = np.arange(len(sort_gens))
      new_gen_positions[sort_gens] = np.arange(len(sort_gens))
      ppc['gen'] = ppc['gen'][sort_gens,]
  \<close>
\<close>

definition ppc2ppci_sort_gens ::
  "(real list \<Rightarrow> int list) \<Rightarrow> ppc \<Rightarrow> py_error + (ppc \<times> int list \<times> int list)" where
  "ppc2ppci_sort_gens argsort ppc =
     (let sort_gens = argsort (map GEN_BUS (gen ppc));
          arange = map int [0..<length sort_gens]
      in py_bind (np_put arange sort_gens arange) (\<lambda>new_gen_positions.
         py_bind (np_take (gen ppc) sort_gens) (\<lambda>g.
         Inr (ppc\<lparr>gen := g\<rparr>, sort_gens, new_gen_positions))))"

text \<open>
  The generator lookups:
  \<^verbatim>\<open>
      _is_elements = net["_is_elements"]
      eg_end = np.sum(_is_elements['ext_grid'])
      gen_end = eg_end + np.sum(_is_elements['gen'])
      sgen_end = len(_is_elements["sgen_controllable"]) + gen_end if "sgen_controllable" in _is_elements else gen_end
      load_end = len(_is_elements["load_controllable"]) + sgen_end if "load_controllable" in _is_elements else sgen_end
      storage_end = len(_is_elements["storage_controllable"]) + load_end if "storage_controllable" in _is_elements else load_end
      if eg_end > 0:
          _build_gen_lookups(net, "ext_grid", 0, eg_end, new_gen_positions)
      if gen_end > eg_end:
          _build_gen_lookups(net, "gen", eg_end, gen_end, new_gen_positions)
      if sgen_end > gen_end:
          _build_gen_lookups(net, "sgen_controllable", gen_end, sgen_end, new_gen_positions)
      if load_end > sgen_end:
          _build_gen_lookups(net, "load_controllable", sgen_end, load_end, new_gen_positions)
      if storage_end > load_end:
          _build_gen_lookups(net, "storage_controllable", load_end, storage_end, new_gen_positions)
  \<close>
\<close>

definition frame_len :: "is_elements \<Rightarrow> string \<Rightarrow> nat" where
  "frame_len ie element = (case is_frame_index ie element of None \<Rightarrow> 0 | Some ix \<Rightarrow> length ix)"

definition ppc2ppci_gen_lookups :: "pp_net \<Rightarrow> int list \<Rightarrow> py_error + pp_net" where
  "ppc2ppci_gen_lookups net new_gen_positions =
     (let ie = net_is_elements net in
      py_bind (py_get (is_mask ie) ''ext_grid'' ''ext_grid'') (\<lambda>m_eg.
      py_bind (py_get (is_mask ie) ''gen'' ''gen'') (\<lambda>m_gen.
      let eg_end = length (filter id m_eg);
          gen_end = eg_end + length (filter id m_gen);
          sgen_end = frame_len ie ''sgen_controllable'' + gen_end;
          load_end = frame_len ie ''load_controllable'' + sgen_end;
          storage_end = frame_len ie ''storage_controllable'' + load_end
      in
      py_bind (if eg_end > 0
               then build_gen_lookups net ''ext_grid'' 0 eg_end new_gen_positions
               else Inr net) (\<lambda>net1.
      py_bind (if gen_end > eg_end
               then build_gen_lookups net1 ''gen'' eg_end gen_end new_gen_positions
               else Inr net1) (\<lambda>net2.
      py_bind (if sgen_end > gen_end
               then build_gen_lookups net2 ''sgen_controllable'' gen_end sgen_end new_gen_positions
               else Inr net2) (\<lambda>net3.
      py_bind (if load_end > sgen_end
               then build_gen_lookups net3 ''load_controllable'' sgen_end load_end new_gen_positions
               else Inr net3) (\<lambda>net4.
      if storage_end > load_end
      then build_gen_lookups net4 ''storage_controllable'' load_end storage_end new_gen_positions
      else Inr net4)))))))"

text \<open>
  The in-service masks and the selection. \<open>bt\<close> is the bus-type column of the reordered
  bus table (line 189 of the source).
  \<^verbatim>\<open>
      n2i = ppc["bus"][:, BUS_I].astype(int)
      bs = (bt != NONE)  # bus status
      gs = ((ppc["gen"][:, GEN_STATUS] > 0) &  # gen status
            bs[n2i[np.real(ppc["gen"][:, GEN_BUS]).astype(int)]])
      ppci["internal"]["gen_is"] = gs
      brs = (np.real(ppc["branch"][:, BR_STATUS]).astype(int) &  # branch status
             bs[n2i[np.real(ppc["branch"][:, F_BUS]).astype(int)]] &
             bs[n2i[np.real(ppc["branch"][:, T_BUS]).astype(int)]]).astype(bool)
      ppci["internal"]["branch_is"] = brs
      if 'areas' in ppc:
          ar = bs[n2i[ppc["areas"][:, PRICE_REF_BUS].astype(int)]]
          ppci["areas"] = ppc["areas"][ar]
      ppci["branch"] = ppc["branch"][brs]
      ppci["gen"] = ppc["gen"][gs]
  \<close>
  The branch mask is an integer array: \<open>&\<close> is the bitwise and of the truncated status
  with the two booleans (0 or 1), and \<open>astype(bool)\<close> tests the result against 0.
\<close>

definition bus_status_at :: "ppc \<Rightarrow> int list \<Rightarrow> py_error + bool list" where
  "bus_status_at ppc refs =
     (let bt = map BUS_TYPE (bus ppc);
          n2i = map (\<lambda>r. astype_int (BUS_I r)) (bus ppc);
          bs = map (\<lambda>t. t \<noteq> NONE) bt
      in py_bind (np_take n2i refs) (\<lambda>rows. np_take bs rows))"

definition ppc2ppci_select :: "ppc \<Rightarrow> ppc \<Rightarrow> py_error + ppc" where
  "ppc2ppci_select ppc ppci =
     py_bind (bus_status_at ppc (map (\<lambda>g. astype_int (GEN_BUS g)) (gen ppc))) (\<lambda>gb.
     let gs = map2 (\<lambda>g b. 0 < GEN_STATUS g \<and> b) (gen ppc) gb;
         ppci1 = ppci\<lparr>internal := (internal ppci)\<lparr>gen_is := gs\<rparr>\<rparr>
     in
     py_bind (bus_status_at ppc (map (\<lambda>b. astype_int (Re (F_BUS b))) (branch ppc))) (\<lambda>fb.
     py_bind (bus_status_at ppc (map (\<lambda>b. astype_int (Re (T_BUS b))) (branch ppc))) (\<lambda>tb.
     let brs = map (\<lambda>(b, f, t). (astype_int (Re (BR_STATUS b)) AND of_bool f AND of_bool t) \<noteq> 0)
                 (zip (branch ppc) (zip fb tb));
         ppci2 = ppci1\<lparr>internal := (internal ppci1)\<lparr>branch_is := brs\<rparr>\<rparr>
     in
     py_bind (case areas ppc of
                None \<Rightarrow> Inr ppci2
              | Some ar \<Rightarrow>
                  py_bind (bus_status_at ppc (map (\<lambda>a. astype_int (PRICE_REF_BUS a)) ar)) (\<lambda>ab.
                  py_bind (np_mask ar ab) (\<lambda>a. Inr (ppci2\<lparr>areas := Some a\<rparr>)))) (\<lambda>ppci3.
     py_bind (np_mask (branch ppc) brs) (\<lambda>br.
     py_bind (np_mask (gen ppc) gs) (\<lambda>g.
     Inr (ppci3\<lparr>branch := br, gen := g\<rparr>)))))))"

text \<open>
  The whole function. \<open>run_userfcn\<close> (PYPOWER's) is a parameter; it runs only when the
  internal case has the key \<open>userfcn\<close>.
  \<^verbatim>\<open>
  def _ppc2ppci(ppc, ppci, net):
      bus_lookup = net["_pd2ppc_lookups"]["bus"]
      ... the bus block ...
      _update_lookup_entries(net, bus_lookup, e2i, "bus")
      if 'areas' in ppc:
          if len(ppc["areas"]) == 0:  # if areas field is empty
              del ppc['areas']  # delete it (so it's ignored)
      bt = ppc["bus"][:, BUS_TYPE]
      ... renumbering, generator order, generator lookups, masks and selection ...
      if 'dcline' in ppc:
          ppci['dcline'] = ppc['dcline']
      if 'userfcn' in ppci:
          ppci = run_userfcn(ppci['userfcn'], 'ext2int', ppci)
      return ppci
  \<close>
\<close>

definition drop_empty_areas :: "ppc \<Rightarrow> ppc" where
  "drop_empty_areas ppc = (if areas ppc = Some [] then ppc\<lparr>areas := None\<rparr> else ppc)"

definition ppc2ppci_callbacks :: "(ppc \<Rightarrow> py_error + ppc) \<Rightarrow> ppc \<Rightarrow> ppc \<Rightarrow> py_error + ppc" where
  "ppc2ppci_callbacks run_userfcn ppc ppci =
     (let ppci1 = (case dcline ppc of None \<Rightarrow> ppci | Some d \<Rightarrow> ppci\<lparr>dcline := Some d\<rparr>)
      in case userfcn ppci1 of None \<Rightarrow> Inr ppci1 | Some u \<Rightarrow> run_userfcn ppci1)"

definition ppc2ppci ::
  "(real list \<Rightarrow> int list) \<Rightarrow> (ppc \<Rightarrow> py_error + ppc) \<Rightarrow> ppc \<Rightarrow> ppc \<Rightarrow> pp_net
     \<Rightarrow> py_error + (ppc \<times> ppc \<times> pp_net)" where
  "ppc2ppci argsort run_userfcn ppc ppci net =
     py_bind (py_get (array_lookup (lookups net)) ''bus'' ''bus'') (\<lambda>bus_lookup.
     py_bind (ppc2ppci_bus ppc ppci) (\<lambda>(ppc1, ppci1, e2i).
     py_bind (update_lookup_entries net bus_lookup e2i ''bus'') (\<lambda>(bus_lookup1, net1).
     py_bind (ppc2ppci_renumber e2i (drop_empty_areas ppc1)) (\<lambda>ppc3.
     py_bind (ppc2ppci_sort_gens argsort ppc3) (\<lambda>(ppc4, sort_gens, new_gen_positions).
     py_bind (ppc2ppci_gen_lookups net1 new_gen_positions) (\<lambda>net2.
     py_bind (ppc2ppci_select ppc4 ppci1) (\<lambda>ppci2.
     py_bind (ppc2ppci_callbacks run_userfcn ppc4 ppci2) (\<lambda>ppci4.
     Inr (ppc4, ppci4, net2)))))))))"


definition argsort_stable :: "real list \<Rightarrow> int list" where
  "argsort_stable xs = map int (sort_key (\<lambda>i. xs ! i) [0..<length xs])"

definition argsort_ties_reversed :: "real list \<Rightarrow> int list" where
  "argsort_ties_reversed xs = map int (rev (sort_key (\<lambda>i. - (xs ! i)) [0..<length xs]))"

section \<open>The incremental updater\<close>

text \<open>
  The builders that \<open>_update_ppc\<close> calls are in other modules (\<open>pandapower.auxiliary\<close>,
  \<open>build_bus\<close>, \<open>build_gen\<close>, \<open>build_branch\<close>); they are parameters of the model, each
  taking the case and returning the changed case.
\<close>

record builders =
  select_is_elements_numba :: "pp_net \<Rightarrow> is_elements"
  calc_pq_elements_and_add_on_ppc :: "pp_net \<Rightarrow> ppc \<Rightarrow> int option \<Rightarrow> ppc"
  calc_shunts_and_add_on_ppc :: "pp_net \<Rightarrow> ppc \<Rightarrow> ppc"
  update_gen_ppc :: "pp_net \<Rightarrow> ppc \<Rightarrow> ppc"
  update_trafo_trafo3w_ppc :: "pp_net \<Rightarrow> ppc \<Rightarrow> ppc"

text \<open>
  \<^verbatim>\<open>
  def _update_ppc(net, sequence=None):
      net["_is_elements"] = aux._select_is_elements_numba(net)
      recycle = net["_options"]["recycle"]
      ppc = net["_ppc"] if sequence is None else net["_ppc%s"% sequence]
      ppci = copy.deepcopy(ppc)
      _calc_pq_elements_and_add_on_ppc(net, ppc, sequence=sequence)
      _calc_shunts_and_add_on_ppc(net, ppc)
      _update_gen_ppc(net, ppc)
      if not recycle["Ybus"]:
          _update_trafo_trafo3w_ppc(net, ppc)
      oos_busses = ppc['bus'][:, BUS_TYPE] == NONE
      ppci['bus'] = ppc['bus'][~oos_busses]
      brs = ppc["internal"]["branch_is"]
      gs = ppc["internal"]["gen_is"]
      ppci["branch"] = ppc["branch"][brs]
      ppci["gen"] = ppc["gen"][gs]
      return ppc, ppci
  \<close>
\<close>

definition update_ppc_builders :: "builders \<Rightarrow> pp_net \<Rightarrow> int option \<Rightarrow> ppc \<Rightarrow> ppc" where
  "update_ppc_builders ext net seq ppc =
     (let ppc1 = calc_pq_elements_and_add_on_ppc ext net ppc seq;
          ppc2 = calc_shunts_and_add_on_ppc ext net ppc1;
          ppc3 = update_gen_ppc ext net ppc2
      in if \<not> opt_recycle_Ybus net then update_trafo_trafo3w_ppc ext net ppc3 else ppc3)"

definition update_ppc :: "builders \<Rightarrow> pp_net \<Rightarrow> int option \<Rightarrow> py_error + (ppc \<times> ppc \<times> pp_net)" where
  "update_ppc ext net seq =
     (let net1 = net\<lparr>net_is_elements := select_is_elements_numba ext net\<rparr> in
      py_bind (py_get (net_ppc net1) (ppc_key seq) (ppc_key seq)) (\<lambda>ppc.
      let ppci = ppc;
          ppc4 = update_ppc_builders ext net1 seq ppc;
          ppci1 = ppci\<lparr>bus := filter (\<lambda>r. \<not> BUS_TYPE r = NONE) (bus ppc4)\<rparr>;
          brs = branch_is (internal ppc4);
          gs = gen_is (internal ppc4)
      in
      py_bind (np_mask (branch ppc4) brs) (\<lambda>br.
      py_bind (np_mask (gen ppc4) gs) (\<lambda>g.
      Inr (ppc4, ppci1\<lparr>branch := br, gen := g\<rparr>,
           net1\<lparr>net_ppc := (net_ppc net1)(ppc_key seq \<mapsto> ppc4)\<rparr>)))))"

section \<open>Zero-sequence impedances\<close>

text \<open>
  \<open>a[idx, col] = vals\<close>: the column of the rows \<open>idx\<close> is written in order; \<open>upd\<close> writes
  the column of one row. A scalar on the right is broadcast to the length of \<open>idx\<close> by
  the caller.
\<close>

fun np_put_col_seq :: "('r \<Rightarrow> 'v \<Rightarrow> 'r) \<Rightarrow> 'r list \<Rightarrow> int list \<Rightarrow> 'v list \<Rightarrow> py_error + 'r list" where
  "np_put_col_seq upd tab (i # js) (v # vs) =
     py_bind (np_index (length tab) i) (\<lambda>k. np_put_col_seq upd (tab[k := upd (tab ! k) v]) js vs)"
| "np_put_col_seq upd tab _ _ = Inr tab"

definition np_put_col :: "('r \<Rightarrow> 'v \<Rightarrow> 'r) \<Rightarrow> 'r list \<Rightarrow> int list \<Rightarrow> 'v list \<Rightarrow> py_error + 'r list" where
  "np_put_col upd tab idx vals =
     (if length idx \<noteq> length vals then Inl (ValueError ''shape mismatch'')
      else np_put_col_seq upd tab idx vals)"

text \<open>
  Modelled from the spec: \<open>aux._sum_by_group\<close> (in \<open>pandapower.auxiliary\<close>, not in this
  file) groups the values by bus: "accumulated shunt contributions across multiple
  transformers landing on the same bus are summed before being added once to that bus's
  shunt admittance row". It returns the distinct buses in ascending order with the sums
  of the two value arrays; the values are read at the positions of the buses, so a value
  array shorter than the bus array is an IndexError.
\<close>

definition group_sum :: "int list \<Rightarrow> real list \<Rightarrow> int \<Rightarrow> real" where
  "group_sum bus_arr vals b = sum_list (map snd (filter (\<lambda>p. fst p = b) (zip bus_arr vals)))"

definition sum_by_group ::
  "int list \<Rightarrow> real list \<Rightarrow> real list \<Rightarrow> py_error + (int list \<times> real list \<times> real list)" where
  "sum_by_group bus_arr first_val second_val =
     (if length first_val < length bus_arr \<or> length second_val < length bus_arr then Inl IndexError
      else let ub = sort (remdups bus_arr)
           in Inr (ub, map (group_sum bus_arr first_val) ub, map (group_sum bus_arr second_val) ub))"

subsection \<open>External grids\<close>

text \<open>
  \<open>series * array\<close> for a pandas column and a numpy array: element by element when the
  lengths agree, a one-element array is broadcast, and any other pair of lengths is a
  ValueError.
\<close>

definition series_mul :: "real list \<Rightarrow> real list \<Rightarrow> py_error + real list" where
  "series_mul col arr =
     (if length arr = length col then Inr (map2 (*) col arr)
      else if length arr = 1 then Inr (map (\<lambda>v. v * hd arr) col)
      else Inl (ValueError ''operands could not be broadcast together''))"

definition s_sc_missing :: "string \<Rightarrow> py_error" where
  "s_sc_missing c = ValueError (''short circuit apparent power s_sc_'' @ c @
                                ''_mva needs to be specified for external grid'')"

definition rx_missing :: "string \<Rightarrow> py_error" where
  "rx_missing c = ValueError (''short circuit R/X rate rx_'' @ c @
                              '' needs to be specified for external grid'')"

definition column :: "(string \<rightharpoonup> 'a) \<Rightarrow> string \<Rightarrow> py_error \<Rightarrow> py_error + 'a" where
  "column df name err = (case df name of None \<Rightarrow> Inl err | Some v \<Rightarrow> Inr v)"

text \<open>
  Lines 507 to 511: the short-circuit case, \<open>net._options["case"]\<close> in mode \<open>sc\<close> and
  \<open>"max"\<close> otherwise.
\<close>

definition ext_grid_case :: "pp_net \<Rightarrow> py_error + string" where
  "ext_grid_case net =
     (if opt_mode net = ''sc''
      then (case opt_case net of None \<Rightarrow> Inl (KeyError ''case'') | Some c \<Rightarrow> Inr c)
      else Inr ''max'')"

text \<open>
  Lines 519 to 546, the zero-sequence admittance of each in-service external grid. \<open>eg\<close>
  holds the float columns of the in-service rows. The voltage factor \<open>c\<close> is a column of
  the bus table in mode \<open>sc\<close>, the scalar 1.1 in mode \<open>pf_3ph\<close> and unbound otherwise,
  which the first use reports. The ratios \<open>x0x\<close> and \<open>r0x0\<close> are read from
  \<open>net.ext_grid\<close>, the unfiltered table.
  \<^verbatim>\<open>
      if mode == "sc":
          c = ppc["bus"][eg_buses_ppc, C_MAX] if case == "max" else ppc["bus"][eg_buses_ppc, C_MIN]
      elif mode == 'pf_3ph':
          c = 1.1
      if not "s_sc_%s_mva" % case in eg:
          raise ValueError("short circuit apparent power s_sc_%s_mva needs to be specified for " % case +
                           "external grid")
      s_sc = eg["s_sc_%s_mva" % case].values
      if not "rx_%s" % case in eg:
          raise ValueError("short circuit R/X rate rx_%s needs to be specified for external grid" %
                           case)
      rx = eg["rx_%s" % case].values
      z_grid = c / s_sc
      if mode == 'pf_3ph':
          z_grid = c / (s_sc / 3)
      x_grid = z_grid / np.sqrt(rx ** 2 + 1)
      r_grid = rx * x_grid
      if case == "max":
          x0_grid = net.ext_grid["x0x_%s" % case] * x_grid
          r0_grid = net.ext_grid["r0x0_%s" % case] * x0_grid
      elif case == "min":
          x0_grid = net.ext_grid["x0x_%s" % case] * x_grid
          r0_grid = net.ext_grid["r0x0_%s" % case] * x0_grid
      y0_grid = 1 / (r0_grid + x0_grid * 1j)
  \<close>
\<close>

definition ext_grid_y0 ::
  "pp_net \<Rightarrow> ppc \<Rightarrow> string \<Rightarrow> int list \<Rightarrow> (string \<rightharpoonup> real list) \<Rightarrow> py_error + complex list" where
  "ext_grid_y0 net ppc c_case eg_buses_ppc eg =
     py_bind (if opt_mode net = ''sc''
              then py_bind (np_take (map (if c_case = ''max'' then C_MAX else C_MIN) (bus ppc))
                              eg_buses_ppc) (\<lambda>c. Inr (Some c))
              else if opt_mode net = ''pf_3ph''
              then Inr (Some (replicate (length eg_buses_ppc) (11 / 10)))
              else Inr None) (\<lambda>c_opt.
     py_bind (column eg (''s_sc_'' @ c_case @ ''_mva'') (s_sc_missing c_case)) (\<lambda>s_sc.
     py_bind (column eg (''rx_'' @ c_case) (rx_missing c_case)) (\<lambda>rx.
     case c_opt of
       None \<Rightarrow> Inl (UnboundLocalError ''c'')
     | Some c \<Rightarrow>
         (let z_grid = (if opt_mode net = ''pf_3ph''
                        then map2 (\<lambda>cv s. cv / (s / 3)) c s_sc
                        else map2 (\<lambda>cv s. cv / s) c s_sc);
              x_grid = map2 (\<lambda>z r. z / sqrt (r\<^sup>2 + 1)) z_grid rx;
              r_grid = map2 (\<lambda>r x. r * x) rx x_grid
          in if c_case = ''max'' \<or> c_case = ''min''
             then py_bind (column (eg_float (ext_grid net)) (''x0x_'' @ c_case)
                             (KeyError (''x0x_'' @ c_case))) (\<lambda>x0x.
                  py_bind (series_mul x0x x_grid) (\<lambda>x0_grid.
                  py_bind (column (eg_float (ext_grid net)) (''r0x0_'' @ c_case)
                             (KeyError (''r0x0_'' @ c_case))) (\<lambda>r0x0.
                  let r0_grid = map2 (\<lambda>r x. r * x) r0x0 x0_grid
                  in Inr (map2 (\<lambda>r0 x0. 1 / Complex r0 x0) r0_grid x0_grid))))
             else Inl (UnboundLocalError ''r0_grid'')))))"

text \<open>
  \<^verbatim>\<open>
  def _add_ext_grid_sc_impedance_zero(net, ppc):
      mode = net["_options"]["mode"]
      ... case ...
      bus_lookup = net["_pd2ppc_lookups"]["bus"]
      eg = net["ext_grid"][net._is_elements["ext_grid"]]
      if len(eg) == 0:
          return
      eg_buses = eg.bus.values
      eg_buses_ppc = bus_lookup[eg_buses]
      ... y0_grid ...
      buses, gs, bs = aux._sum_by_group(eg_buses_ppc, y0_grid.real, y0_grid.imag)
      ppc["bus"][buses, GS] = gs
      ppc["bus"][buses, BS] = bs
  \<close>
\<close>

definition eg_rows :: "bool list \<Rightarrow> (string \<rightharpoonup> real list) \<Rightarrow> (string \<rightharpoonup> real list)" where
  "eg_rows m df = (\<lambda>name. map_option (\<lambda>col. map fst (filter snd (zip col m))) (df name))"

definition add_ext_grid_sc_impedance_zero :: "pp_net \<Rightarrow> ppc \<Rightarrow> py_error + ppc" where
  "add_ext_grid_sc_impedance_zero net ppc =
     py_bind (ext_grid_case net) (\<lambda>c_case.
     py_bind (py_get (array_lookup (lookups net)) ''bus'' ''bus'') (\<lambda>bus_lookup.
     py_bind (py_get (is_mask (net_is_elements net)) ''ext_grid'' ''ext_grid'') (\<lambda>m.
     py_bind (np_mask (eg_bus (ext_grid net)) m) (\<lambda>eg_buses.
     if length eg_buses = 0 then Inr ppc
     else
     py_bind (np_take bus_lookup eg_buses) (\<lambda>eg_buses_ppc.
     py_bind (ext_grid_y0 net ppc c_case eg_buses_ppc (eg_rows m (eg_float (ext_grid net)))) (\<lambda>y0_grid.
     py_bind (sum_by_group eg_buses_ppc (map Re y0_grid) (map Im y0_grid)) (\<lambda>(buses, gs, bs).
     py_bind (np_put_col (\<lambda>r v. r\<lparr>GS := v\<rparr>) (bus ppc) buses gs) (\<lambda>bus1.
     py_bind (np_put_col (\<lambda>r v. r\<lparr>BS := v\<rparr>) bus1 buses bs) (\<lambda>bus2.
     Inr (ppc\<lparr>bus := bus2\<rparr>))))))))))"

subsection \<open>Transformers\<close>

text \<open>
  The helpers of \<open>pandapower.build_branch\<close> that the zero-sequence builders call are not
  in this file; they are parameters of the model, applied to one transformer row each.
\<close>

record branch_builders =
  initialize_branch_lookup :: "pp_net \<Rightarrow> nat \<times> pp_net"
  calc_tap_from_dataframe :: "pp_net \<Rightarrow> trafo_row \<Rightarrow> real \<times> real \<times> real"
  calc_nominal_ratio_from_dataframe :: "ppc \<Rightarrow> trafo_row \<Rightarrow> real \<Rightarrow> real \<Rightarrow> int list \<Rightarrow> real"
  transformer_correction_factor :: "real \<Rightarrow> real \<Rightarrow> real \<Rightarrow> real \<Rightarrow> real"

text \<open>What the loop over the vector groups changes: the branch table and the three arrays
  \<open>buses_all\<close>, \<open>gs_all\<close> and \<open>bs_all\<close>.\<close>

record zero_acc =
  acc_branch :: "branch_row list"
  buses_all :: "int list"
  gs_all :: "real list"
  bs_all :: "real list"

text \<open>numpy orders complex numbers by the real part, then by the imaginary part.\<close>

definition complex_less :: "complex \<Rightarrow> complex \<Rightarrow> bool" where
  "complex_less a b \<longleftrightarrow> Re a < Re b \<or> (Re a = Re b \<and> Im a < Im b)"

text \<open>\<open>str.isdigit\<close> on one character of an ASCII string.\<close>

definition isdigit :: "char \<Rightarrow> bool" where
  "isdigit c \<longleftrightarrow> c \<in> set ''0123456789''"

definition phase_shift_error :: "string \<Rightarrow> py_error" where
  "phase_shift_error vg = ValueError (''Unknown transformer vector group '' @ vg @
     '' - please specify vector group without phase shift number. Phase shift can be specified in net.trafo.shift_degree'')"

definition unknown_group_error :: "string \<Rightarrow> py_error" where
  "unknown_group_error vg = ValueError (''Transformer vector group '' @ vg @ '' is unknown / not implemented'')"

text \<open>
  Lines 405 to 427 for one transformer: the zero-sequence short-circuit impedance and
  the magnetising impedance.
  \<^verbatim>\<open>
      tap_lv = np.square(vn_trafo_lv / vn_lv)
      if mode == 'pf_3ph':
          tap_lv = np.square(vn_trafo_lv / (vn_lv / np.sqrt(3)))
      z_sc = vsc0_percent / 100. / trafo_kva * tap_lv * net.sn_kva
      r_sc = vscr0_percent / 100. / trafo_kva * tap_lv * net.sn_kva
      x_sc = np.sign(z_sc) * np.sqrt(z_sc ** 2 - r_sc ** 2)
      z0_k = (r_sc + x_sc * 1j) / parallel
      z_m = (z_sc * mag0_ratio)
      x_m = z_m / np.sqrt(mag0_rx ** 2 + 1)
      r_m = x_m * mag0_rx
      r0_trafo_mag = r_m / parallel
      x0_trafo_mag = x_m / parallel
      z0_mag = r0_trafo_mag + x0_trafo_mag * 1j
  \<close>
\<close>

definition trafo_tap_lv :: "pp_net \<Rightarrow> real \<Rightarrow> real \<Rightarrow> real" where
  "trafo_tap_lv net vn_trafo_lv vn_lv =
     (if opt_mode net = ''pf_3ph'' then (vn_trafo_lv / (vn_lv / sqrt 3))\<^sup>2
      else (vn_trafo_lv / vn_lv)\<^sup>2)"

definition trafo_z_sc :: "pp_net \<Rightarrow> trafo_row \<Rightarrow> real \<Rightarrow> real" where
  "trafo_z_sc net tr tap_lv = vsc0_percent tr / 100 / sn_kva tr * tap_lv * net_sn_kva net"

definition trafo_r_sc :: "pp_net \<Rightarrow> trafo_row \<Rightarrow> real \<Rightarrow> real" where
  "trafo_r_sc net tr tap_lv = vscr0_percent tr / 100 / sn_kva tr * tap_lv * net_sn_kva net"

definition trafo_z0_k :: "pp_net \<Rightarrow> trafo_row \<Rightarrow> real \<Rightarrow> complex" where
  "trafo_z0_k net tr tap_lv =
     (let z_sc = trafo_z_sc net tr tap_lv;
          r_sc = trafo_r_sc net tr tap_lv;
          x_sc = sgn z_sc * sqrt (z_sc\<^sup>2 - r_sc\<^sup>2)
      in Complex r_sc x_sc / of_real (parallel tr))"

definition trafo_z0_mag :: "pp_net \<Rightarrow> trafo_row \<Rightarrow> real \<Rightarrow> complex" where
  "trafo_z0_mag net tr tap_lv =
     (let z_m = trafo_z_sc net tr tap_lv * mag0_percent tr;
          x_m = z_m / sqrt ((mag0_rx tr)\<^sup>2 + 1);
          r_m = x_m * mag0_rx tr
      in Complex (r_m / parallel tr) (x_m / parallel tr))"

text \<open>
  The T model to the Pi model, for one transformer:
  \<^verbatim>\<open>
              z1 = si0_hv_partial * z0_k
              z2 = (1 - si0_hv_partial) * z0_k
              z3 = z0_mag
              z_temp = z1 * z2 + z2 * z3 + z1 * z3
              za = z_temp / z2
              zb = z_temp / z1
              zc = z_temp / z3
  \<close>
\<close>

definition pi_z_temp :: "real \<Rightarrow> complex \<Rightarrow> complex \<Rightarrow> complex" where
  "pi_z_temp s z0_k z0_mag =
     (let z1 = of_real s * z0_k; z2 = of_real (1 - s) * z0_k; z3 = z0_mag
      in z1 * z2 + z2 * z3 + z1 * z3)"

definition pi_za :: "real \<Rightarrow> complex \<Rightarrow> complex \<Rightarrow> complex" where
  "pi_za s z0_k z0_mag = pi_z_temp s z0_k z0_mag / (of_real (1 - s) * z0_k)"

definition pi_zb :: "real \<Rightarrow> complex \<Rightarrow> complex \<Rightarrow> complex" where
  "pi_zb s z0_k z0_mag = pi_z_temp s z0_k z0_mag / (of_real s * z0_k)"

definition pi_zc :: "real \<Rightarrow> complex \<Rightarrow> complex \<Rightarrow> complex" where
  "pi_zc s z0_k z0_mag = pi_z_temp s z0_k z0_mag / z0_mag"

text \<open>The contribution \<open>ys.real * in_service * int(ppc["baseMVA"])\<close> of every transformer
  of the group, for a scalar \<open>ys\<close>.\<close>

definition shunt_re :: "complex \<Rightarrow> bool list \<Rightarrow> int \<Rightarrow> real list" where
  "shunt_re ys in_service_v mva = map (\<lambda>sv. Re ys * of_bool sv * of_int mva) in_service_v"

definition shunt_im :: "complex \<Rightarrow> bool list \<Rightarrow> int \<Rightarrow> real list" where
  "shunt_im ys in_service_v mva = map (\<lambda>sv. Im ys * of_bool sv * of_int mva) in_service_v"

text \<open>
  The loop of the group \<open>YNyn\<close> over the pairs \<open>(za_tr, zb_tr)\<close>. Every pass writes \<open>y\<close>
  to \<open>BR_B\<close> of all rows \<open>ppc_idx\<close> of the group and appends the buses of the whole group:
  \<^verbatim>\<open>
              for za_tr,zb_tr in zip(za,zb):
                  if za_tr==zb_tr:
                      y = -1j / za_tr
                      ppc["branch"][ppc_idx, BR_B] = y
                      ys = 0
                      buses_all = np.hstack([buses_all, lv_buses_ppc])
                      gs_all = np.hstack([gs_all, ys.real * in_service * int(ppc["baseMVA"])])
                      bs_all = np.hstack([bs_all, ys.imag * in_service * int(ppc["baseMVA"])])
                  elif za_tr > zb_tr :
                      y = -1j / za_tr
                      ppc["branch"][ppc_idx, BR_B] = y
                      zs = (za_tr * zb_tr) / (za_tr - zb_tr)
                      ys = 1/ zs.astype(complex)
                      buses_all = np.hstack([buses_all, hv_buses_ppc])
                      gs_all = np.hstack([gs_all, ys.real * in_service * int(ppc["baseMVA"])])
                      bs_all = np.hstack([bs_all, ys.imag * in_service * int(ppc["baseMVA"])])
                  elif za_tr < zb_tr :
                      y = -1j/ zb_tr
                      ppc["branch"][ppc_idx, BR_B] = y
                      zs = (za_tr * zb_tr) / (zb_tr - za_tr)
                      ys = 1/ zs.astype(complex)
                      buses_all = np.hstack([buses_all, lv_buses_ppc])
                      gs_all = np.hstack([gs_all, ys.real * in_service * int(ppc["baseMVA"])])
                      bs_all = np.hstack([bs_all, ys.imag * in_service * int(ppc["baseMVA"])])
  \<close>
\<close>

definition ynyn_pass ::
  "int list \<Rightarrow> bool list \<Rightarrow> int \<Rightarrow> complex \<Rightarrow> complex \<Rightarrow> int list \<Rightarrow> zero_acc \<Rightarrow> py_error + zero_acc" where
  "ynyn_pass ppc_idx in_service_v mva y ys buses acc =
     py_bind (np_put_col (\<lambda>r v. r\<lparr>BR_B := v\<rparr>) (acc_branch acc) ppc_idx
                (replicate (length ppc_idx) y)) (\<lambda>br.
     Inr (acc\<lparr>acc_branch := br,
              buses_all := buses_all acc @ buses,
              gs_all := gs_all acc @ shunt_re ys in_service_v mva,
              bs_all := bs_all acc @ shunt_im ys in_service_v mva\<rparr>))"

fun ynyn_loop ::
  "int list \<Rightarrow> int list \<Rightarrow> int list \<Rightarrow> bool list \<Rightarrow> int \<Rightarrow> (complex \<times> complex) list \<Rightarrow> zero_acc
     \<Rightarrow> py_error + zero_acc" where
  "ynyn_loop ppc_idx lv_buses_ppc hv_buses_ppc in_service_v mva [] acc = Inr acc"
| "ynyn_loop ppc_idx lv_buses_ppc hv_buses_ppc in_service_v mva ((za_tr, zb_tr) # rest) acc =
     py_bind
       (if za_tr = zb_tr
        then ynyn_pass ppc_idx in_service_v mva (- \<i> / za_tr) 0 lv_buses_ppc acc
        else if complex_less zb_tr za_tr
        then ynyn_pass ppc_idx in_service_v mva (- \<i> / za_tr)
               (1 / ((za_tr * zb_tr) / (za_tr - zb_tr))) hv_buses_ppc acc
        else if complex_less za_tr zb_tr
        then ynyn_pass ppc_idx in_service_v mva (- \<i> / zb_tr)
               (1 / ((za_tr * zb_tr) / (zb_tr - za_tr))) lv_buses_ppc acc
        else Inr acc)
       (ynyn_loop ppc_idx lv_buses_ppc hv_buses_ppc in_service_v mva rest)"

text \<open>
  The branches of the \<open>if\<close> chain on the vector group (lines 429 to 496), given the
  impedances of the transformers of the group.
\<close>

definition trafo_dispatch_zero ::
  "string \<Rightarrow> int list \<Rightarrow> int list \<Rightarrow> int list \<Rightarrow> bool list \<Rightarrow> int \<Rightarrow> real list \<Rightarrow> complex list
     \<Rightarrow> complex list \<Rightarrow> zero_acc \<Rightarrow> py_error + zero_acc" where
  "trafo_dispatch_zero vg ppc_idx lv_buses_ppc hv_buses_ppc in_service_v mva si0 z0_k z0_mag acc =
     (let y0_k = map (\<lambda>z. 1 / z) z0_k;
          y_sum = map2 (\<lambda>zm zk. 1 / (zm + zk) * of_int mva) z0_mag z0_k
      in
      if vg = ''Dyn''
      then Inr (acc\<lparr>buses_all := buses_all acc @ lv_buses_ppc,
                    gs_all := gs_all acc @ map2 (\<lambda>y sv. Re y * of_bool sv * of_int mva) y0_k in_service_v,
                    bs_all := bs_all acc @ map2 (\<lambda>y sv. Im y * of_bool sv * of_int mva) y0_k in_service_v\<rparr>)
      else if vg = ''YNd''
      then Inr (acc\<lparr>buses_all := buses_all acc @ hv_buses_ppc,
                    gs_all := gs_all acc @ map2 (\<lambda>y sv. Re y * of_bool sv * of_int mva) y0_k in_service_v,
                    bs_all := bs_all acc @ map2 (\<lambda>y sv. Im y * of_bool sv * of_int mva) y0_k in_service_v\<rparr>)
      else if vg = ''Yyn''
      then Inr (acc\<lparr>buses_all := buses_all acc @ lv_buses_ppc,
                    gs_all := gs_all acc @ map2 (\<lambda>y sv. Re y * of_bool sv) y_sum in_service_v,
                    bs_all := bs_all acc @ map2 (\<lambda>y sv. Im y * of_bool sv) y_sum in_service_v\<rparr>)
      else if vg = ''YNyn''
      then py_bind (np_put_col (\<lambda>r v. r\<lparr>BR_STATUS := v\<rparr>) (acc_branch acc) ppc_idx
                      (map of_bool in_service_v)) (\<lambda>br1.
           let za = map (\<lambda>(sv, zk, zm). pi_za sv zk zm) (zip si0 (zip z0_k z0_mag));
               zb = map (\<lambda>(sv, zk, zm). pi_zb sv zk zm) (zip si0 (zip z0_k z0_mag));
               zc = map (\<lambda>(sv, zk, zm). pi_zc sv zk zm) (zip si0 (zip z0_k z0_mag))
           in
           py_bind (np_put_col (\<lambda>r v. r\<lparr>BR_R := v\<rparr>) br1 ppc_idx (map (\<lambda>z. of_real (Re z)) zc)) (\<lambda>br2.
           py_bind (np_put_col (\<lambda>r v. r\<lparr>BR_X := v\<rparr>) br2 ppc_idx (map (\<lambda>z. of_real (Im z)) zc)) (\<lambda>br3.
           ynyn_loop ppc_idx lv_buses_ppc hv_buses_ppc in_service_v mva (zip za zb)
             (acc\<lparr>acc_branch := br3\<rparr>))))
      else if vg = ''YNy''
      then Inr (acc\<lparr>buses_all := buses_all acc @ hv_buses_ppc,
                    gs_all := gs_all acc @ map2 (\<lambda>y sv. Re y * of_bool sv) y_sum in_service_v,
                    bs_all := bs_all acc @ map2 (\<lambda>y sv. Im y * of_bool sv) y_sum in_service_v\<rparr>)
      else if vg = [] then Inl IndexError
      else if isdigit (last vg) then Inl (phase_shift_error vg)
      else Inl (unknown_group_error vg))"

text \<open>
  One pass of the loop over the groups (lines 370 to 496), for the vector group \<open>vg\<close> and
  its transformers, each with its row number \<open>_ppc_idx\<close>. \<open>vector_group[-1]\<close> of the empty
  string is an IndexError.
  \<^verbatim>\<open>
          ppc_idx = trafos["_ppc_idx"].values.astype(int)
          ppc["branch"][ppc_idx, BR_STATUS] = 0
          if vector_group in ["Yy", "Yd", "Dy", "Dd"]:
              continue
          ...
          lv_buses_ppc = bus_lookup[lv_buses]
          hv_buses_ppc = bus_lookup[hv_buses]
          ...
          ppc["branch"][ppc_idx, F_BUS] = hv_buses_ppc
          ppc["branch"][ppc_idx, T_BUS] = lv_buses_ppc
          vn_trafo_hv, vn_trafo_lv, shift = _calc_tap_from_dataframe(net, trafos)
          vn_lv = ppc["bus"][lv_buses_ppc, BASE_KV]
          ratio = _calc_nominal_ratio_from_dataframe(ppc, trafos, vn_trafo_hv, vn_trafo_lv,
                                                     bus_lookup)
          ppc["branch"][ppc_idx, TAP] = ratio
          ppc["branch"][ppc_idx, SHIFT] = shift
          ... z_sc, r_sc, x_sc, z0_k ...
          if mode == "sc":
              from pandapower.shortcircuit.idx_bus import C_MAX
              cmax = ppc["bus"][lv_buses_ppc, C_MAX]
              kt = _transformer_correction_factor(vsc_percent, vscr_percent, trafo_kva, cmax)
              z0_k *= kt
          y0_k = 1 / z0_k
          ... z0_mag ...
  \<close>
\<close>

definition trafo_group_zero ::
  "branch_builders \<Rightarrow> pp_net \<Rightarrow> ppc \<Rightarrow> int list \<Rightarrow> string \<Rightarrow> (int \<times> trafo_row) list \<Rightarrow> zero_acc
     \<Rightarrow> py_error + zero_acc" where
  "trafo_group_zero B net ppc bus_lookup vg trafos acc =
     (let ppc_idx = map fst trafos; rows = map snd trafos in
      py_bind (np_put_col (\<lambda>r v. r\<lparr>BR_STATUS := v\<rparr>) (acc_branch acc) ppc_idx
                 (replicate (length ppc_idx) 0)) (\<lambda>br0.
      if vg \<in> set [''Yy'', ''Yd'', ''Dy'', ''Dd''] then Inr (acc\<lparr>acc_branch := br0\<rparr>)
      else
      py_bind (np_take bus_lookup (map lv_bus rows)) (\<lambda>lv_buses_ppc.
      py_bind (np_take bus_lookup (map hv_bus rows)) (\<lambda>hv_buses_ppc.
      py_bind (np_put_col (\<lambda>r v. r\<lparr>F_BUS := v\<rparr>) br0 ppc_idx (map of_int hv_buses_ppc)) (\<lambda>br1.
      py_bind (np_put_col (\<lambda>r v. r\<lparr>T_BUS := v\<rparr>) br1 ppc_idx (map of_int lv_buses_ppc)) (\<lambda>br2.
      let taps = map (calc_tap_from_dataframe B net) rows;
          vn_trafo_hv = map fst taps;
          vn_trafo_lv = map (\<lambda>tp. fst (snd tp)) taps;
          shift = map (\<lambda>tp. snd (snd tp)) taps
      in
      py_bind (np_take (map BASE_KV (bus ppc)) lv_buses_ppc) (\<lambda>vn_lv.
      let ratio = map (\<lambda>(tr, vhv, vlv). calc_nominal_ratio_from_dataframe B ppc tr vhv vlv bus_lookup)
                    (zip rows (zip vn_trafo_hv vn_trafo_lv))
      in
      py_bind (np_put_col (\<lambda>r v. r\<lparr>TAP := v\<rparr>) br2 ppc_idx (map of_real ratio)) (\<lambda>br3.
      py_bind (np_put_col (\<lambda>r v. r\<lparr>SHIFT := v\<rparr>) br3 ppc_idx (map of_real shift)) (\<lambda>br4.
      let tap_lv = map2 (trafo_tap_lv net) vn_trafo_lv vn_lv;
          z0_k_pf = map2 (trafo_z0_k net) rows tap_lv;
          z0_mag = map2 (trafo_z0_mag net) rows tap_lv
      in
      py_bind (if opt_mode net = ''sc''
               then py_bind (np_take (map C_MAX (bus ppc)) lv_buses_ppc) (\<lambda>cmax.
                    Inr (map (\<lambda>(z, tr, cm). z * of_real (transformer_correction_factor B
                                 (vsc_percent tr) (vscr_percent tr) (sn_kva tr) cm))
                           (zip z0_k_pf (zip rows cmax))))
               else Inr z0_k_pf) (\<lambda>z0_k.
      trafo_dispatch_zero vg ppc_idx lv_buses_ppc hv_buses_ppc (map in_service rows)
        (astype_int (baseMVA ppc)) (map si0_hv_partial rows) z0_k z0_mag
        (acc\<lparr>acc_branch := br4\<rparr>)))))))))))"

text \<open>The loop over the groups, in the order of \<open>groupby\<close> (ascending keys); an exception
  ends it.\<close>

fun trafo_groups_zero ::
  "branch_builders \<Rightarrow> pp_net \<Rightarrow> ppc \<Rightarrow> int list \<Rightarrow> (int \<times> trafo_row) list \<Rightarrow> string list \<Rightarrow> zero_acc
     \<Rightarrow> py_error + zero_acc" where
  "trafo_groups_zero B net ppc bus_lookup indexed [] acc = Inr acc"
| "trafo_groups_zero B net ppc bus_lookup indexed (vg # vgs) acc =
     py_bind (trafo_group_zero B net ppc bus_lookup vg
                (filter (\<lambda>p. vector_group (snd p) = vg) indexed) acc)
       (trafo_groups_zero B net ppc bus_lookup indexed vgs)"

text \<open>
  \<^verbatim>\<open>
  def _add_trafo_sc_impedance_zero(net, ppc, trafo_df=None):
      if trafo_df is None:
          trafo_df = net["trafo"]
      branch_lookup = net["_pd2ppc_lookups"]["branch"]
      if not "trafo" in branch_lookup:
          return
      bus_lookup = net["_pd2ppc_lookups"]["bus"]
      mode = net["_options"]["mode"]
      f, t = branch_lookup["trafo"]
      trafo_df["_ppc_idx"] = range(f, t)
      bus_lookup = net["_pd2ppc_lookups"]["bus"]
      buses_all, gs_all, bs_all = np.array([], dtype=int), np.array([]), np.array([])
      for vector_group, trafos in trafo_df.groupby("vector_group"):
          ...
      buses, gs, bs = aux._sum_by_group(buses_all, gs_all, bs_all)
      ppc["bus"][buses, GS] += gs
      ppc["bus"][buses, BS] += bs
      del net.trafo["_ppc_idx"]
  \<close>
  The column \<open>_ppc_idx\<close> takes \<open>range(f, t)\<close>, which must have the length of the table.
\<close>

definition add_trafo_sc_impedance_zero :: "branch_builders \<Rightarrow> pp_net \<Rightarrow> ppc \<Rightarrow> py_error + ppc" where
  "add_trafo_sc_impedance_zero B net ppc =
     (case branch_lookup (lookups net) ''trafo'' of
        None \<Rightarrow> Inr ppc
      | Some (f, t) \<Rightarrow>
          py_bind (py_get (array_lookup (lookups net)) ''bus'' ''bus'') (\<lambda>bus_lookup.
          if int (length (trafo net)) \<noteq> max 0 (t - f)
          then Inl (ValueError ''Length of values does not match length of index'')
          else
          let indexed = zip (map (\<lambda>k. f + int k) [0..<length (trafo net)]) (trafo net);
              groups = sort (remdups (map vector_group (trafo net)))
          in
          py_bind (trafo_groups_zero B net ppc bus_lookup indexed groups
                     \<lparr>acc_branch = branch ppc, buses_all = [], gs_all = [], bs_all = []\<rparr>) (\<lambda>acc.
          py_bind (sum_by_group (buses_all acc) (gs_all acc) (bs_all acc)) (\<lambda>(buses, gs, bs).
          py_bind (np_take (map GS (bus ppc)) buses) (\<lambda>gs0.
          py_bind (np_put_col (\<lambda>r v. r\<lparr>GS := v\<rparr>) (bus ppc) buses (map2 (+) gs0 gs)) (\<lambda>bus1.
          py_bind (np_take (map BS bus1) buses) (\<lambda>bs0.
          py_bind (np_put_col (\<lambda>r v. r\<lparr>BS := v\<rparr>) bus1 buses (map2 (+) bs0 bs)) (\<lambda>bus2.
          Inr (ppc\<lparr>branch := acc_branch acc, bus := bus2\<rparr>)))))))))"

subsection \<open>Lines and the zero-sequence branch table\<close>

text \<open>
  \<open>a[f:t, col] = vals\<close>: the rows of the slice, with Python's clipping of the bounds, take
  the values; a one-element right side is broadcast and any other length that differs
  from the length of the slice is a ValueError.
\<close>

definition py_slice :: "nat \<Rightarrow> int \<Rightarrow> int \<Rightarrow> int list" where
  "py_slice n f t =
     (let clip = (\<lambda>i. if i < 0 then max 0 (int n + i) else min (int n) i)
      in map (\<lambda>k. clip f + int k) [0..<nat (clip t - clip f)])"

definition np_put_slice :: "('r \<Rightarrow> 'v \<Rightarrow> 'r) \<Rightarrow> 'r list \<Rightarrow> int \<Rightarrow> int \<Rightarrow> 'v list \<Rightarrow> py_error + 'r list" where
  "np_put_slice upd tab f t vals =
     (let rows = py_slice (length tab) f t
      in if length vals = length rows then np_put_col upd tab rows vals
         else if length vals = 1 then np_put_col upd tab rows (replicate (length rows) (hd vals))
         else Inl (ValueError ''could not broadcast input array''))"

text \<open>
  \<^verbatim>\<open>
  def _add_line_sc_impedance_zero(net, ppc):
      branch_lookup = net["_pd2ppc_lookups"]["branch"]
      mode = net["_options"]["mode"]
      if not "line" in branch_lookup:
          return
      line = net["line"]
      bus_lookup = net["_pd2ppc_lookups"]["bus"]
      length = line["length_km"].values
      parallel = line["parallel"].values
      fb = bus_lookup[line["from_bus"].values]
      tb = bus_lookup[line["to_bus"].values]
      baseR = np.square(ppc["bus"][fb, BASE_KV]) / ppc["baseMVA"]
      if mode == 'pf_3ph':
          baseR = np.square(ppc["bus"][fb, BASE_KV] / np.sqrt(3)) / ppc["baseMVA"]
      f, t = branch_lookup["line"]
      ppc["branch"][f:t, F_BUS] = fb
      ppc["branch"][f:t, T_BUS] = tb
      ppc["branch"][f:t, BR_R] = line["r0_ohm_per_km"].values * length / baseR / parallel
      ppc["branch"][f:t, BR_X] = line["x0_ohm_per_km"].values * length / baseR / parallel
      ppc["branch"][f:t, BR_B] = (
                  2 * net["f_hz"] * math.pi * line["c0_nf_per_km"].values * 1e-9 * baseR * length * parallel)
      ppc["branch"][f:t, BR_STATUS] = line["in_service"].astype(int)
  \<close>
\<close>

definition add_line_sc_impedance_zero :: "pp_net \<Rightarrow> ppc \<Rightarrow> py_error + ppc" where
  "add_line_sc_impedance_zero net ppc =
     (case branch_lookup (lookups net) ''line'' of
        None \<Rightarrow> Inr ppc
      | Some (f, t) \<Rightarrow>
          py_bind (py_get (array_lookup (lookups net)) ''bus'' ''bus'') (\<lambda>bus_lookup.
          py_bind (np_take bus_lookup (map from_bus (line net))) (\<lambda>fb.
          py_bind (np_take bus_lookup (map to_bus (line net))) (\<lambda>tb.
          py_bind (np_take (map BASE_KV (bus ppc)) fb) (\<lambda>kv.
          let baseR = (if opt_mode net = ''pf_3ph''
                       then map (\<lambda>v. (v / sqrt 3)\<^sup>2 / baseMVA ppc) kv
                       else map (\<lambda>v. v\<^sup>2 / baseMVA ppc) kv);
              r0 = map2 (\<lambda>l b. r0_ohm_per_km l * length_km l / b / line_parallel l) (line net) baseR;
              x0 = map2 (\<lambda>l b. x0_ohm_per_km l * length_km l / b / line_parallel l) (line net) baseR;
              b0 = map2 (\<lambda>l b. 2 * net_f_hz net * pi * c0_nf_per_km l * (1 / 10 ^ 9) * b
                                  * length_km l * line_parallel l) (line net) baseR
          in
          py_bind (np_put_slice (\<lambda>r v. r\<lparr>F_BUS := v\<rparr>) (branch ppc) f t (map of_int fb)) (\<lambda>br1.
          py_bind (np_put_slice (\<lambda>r v. r\<lparr>T_BUS := v\<rparr>) br1 f t (map of_int tb)) (\<lambda>br2.
          py_bind (np_put_slice (\<lambda>r v. r\<lparr>BR_R := v\<rparr>) br2 f t (map of_real r0)) (\<lambda>br3.
          py_bind (np_put_slice (\<lambda>r v. r\<lparr>BR_X := v\<rparr>) br3 f t (map of_real x0)) (\<lambda>br4.
          py_bind (np_put_slice (\<lambda>r v. r\<lparr>BR_B := v\<rparr>) br4 f t (map of_real b0)) (\<lambda>br5.
          py_bind (np_put_slice (\<lambda>r v. r\<lparr>BR_STATUS := v\<rparr>) br5 f t
                     (map (\<lambda>l. of_bool (line_in_service l)) (line net))) (\<lambda>br6.
          Inr (ppc\<lparr>branch := br6\<rparr>))))))))))))"

text \<open>
  The row that \<open>_build_branch_ppc_zero\<close> writes to the first 13 columns of every branch.
\<close>

definition branch_row0 :: branch_row where
  "branch_row0 = \<lparr>F_BUS = 0, T_BUS = 0, BR_R = 0, BR_X = 0, BR_B = 0, RATE_A = 250,
                   RATE_B = 250, RATE_C = 250, TAP = 1, SHIFT = 0, BR_STATUS = 1,
                   ANGMIN = - 360, ANGMAX = 360\<rparr>"

text \<open>
  \<^verbatim>\<open>
  def _build_branch_ppc_zero(net, ppc):
      length = _initialize_branch_lookup(net)
      lookup = net._pd2ppc_lookups["branch"]
      mode = net._options["mode"]
      ppc["branch"] = np.zeros(shape=(length, branch_cols), dtype=np.complex128)
      if mode == "sc":
          ... more columns, filled with nan ...
      ppc["branch"][:, :13] = np.array([0, 0, 0, 0, 0, 250, 250, 250, 1, 0, 1, -360, 360])
      _add_line_sc_impedance_zero(net, ppc)
      _add_trafo_sc_impedance_zero(net, ppc)
      if "trafo3w" in lookup:
          raise NotImplemented("Three winding transformers are not implemented for unbalanced calculations")
  \<close>
  \<open>NotImplemented\<close> is not an exception class and not callable: evaluating the operand of
  \<open>raise\<close> is a TypeError.
\<close>

definition build_branch_ppc_zero :: "branch_builders \<Rightarrow> pp_net \<Rightarrow> ppc \<Rightarrow> py_error + (ppc \<times> pp_net)" where
  "build_branch_ppc_zero B net ppc =
     (let (len, net1) = initialize_branch_lookup B net;
          lookup = branch_lookup (lookups net1);
          ppc1 = ppc\<lparr>branch := replicate len branch_row0\<rparr>
      in py_bind (add_line_sc_impedance_zero net1 ppc1) (\<lambda>ppc2.
         py_bind (add_trafo_sc_impedance_zero B net1 ppc2) (\<lambda>ppc3.
         if lookup ''trafo3w'' \<noteq> None
         then Inl (TypeError ''NotImplementedType object is not callable'')
         else Inr (ppc3, net1))))"

section \<open>Example inputs\<close>

text \<open>A network with no elements, no lookups and the default power-flow options.\<close>

definition net0 :: pp_net where
  "net0 = \<lparr>net_sn_kva = 1000, net_f_hz = 50, opt_mode = ''pf'', opt_case = None,
            opt_recycle_Ybus = False,
            lookups = \<lparr>array_lookup = Map.empty, branch_lookup = Map.empty\<rparr>,
            net_is_elements = \<lparr>is_mask = Map.empty, is_frame_index = Map.empty\<rparr>,
            element_index = Map.empty, trafo = [],
            ext_grid = \<lparr>eg_bus = [], eg_float = Map.empty\<rparr>,
            line = [], net_ppc = Map.empty\<rparr>"

text \<open>A bus row with identifier \<open>i\<close> and type \<open>t\<close>, a branch row with the defaults that
  \<open>_build_branch_ppc_zero\<close> writes and the given end buses and status, a generator row,
  and the case that \<open>_init_ppc\<close> creates for \<open>net0\<close>, filled with given tables.\<close>

definition ex_bus :: "real \<Rightarrow> real \<Rightarrow> bus_row" where
  "ex_bus i t = \<lparr>BUS_I = i, BUS_TYPE = t, GS = 0, BS = 0, BASE_KV = 110, C_MAX = 11 / 10, C_MIN = 1\<rparr>"

definition ex_branch :: "complex \<Rightarrow> complex \<Rightarrow> complex \<Rightarrow> branch_row" where
  "ex_branch f t st = branch_row0\<lparr>F_BUS := f, T_BUS := t, BR_STATUS := st\<rparr>"

definition ex_gen :: "real \<Rightarrow> real \<Rightarrow> real \<Rightarrow> gen_row" where
  "ex_gen b p st = \<lparr>GEN_BUS = b, PG = p, VG = 1, GEN_STATUS = st\<rparr>"

definition ex_case :: "bus_row list \<Rightarrow> branch_row list \<Rightarrow> gen_row list \<Rightarrow> ppc" where
  "ex_case bs brs gs = (fst (init_ppc net0 None))\<lparr>bus := bs, branch := brs, gen := gs\<rparr>"

text \<open>\<open>net0\<close> with a bus lookup and the in-service masks of external grids and
  generators.\<close>

definition ex_net :: "int list \<Rightarrow> bool list \<Rightarrow> bool list \<Rightarrow> pp_net" where
  "ex_net bus_lookup eg_mask gen_mask =
     net0\<lparr>lookups := \<lparr>array_lookup = [''bus'' \<mapsto> bus_lookup], branch_lookup = Map.empty\<rparr>,
          net_is_elements := \<lparr>is_mask = [''ext_grid'' \<mapsto> eg_mask, ''gen'' \<mapsto> gen_mask],
                              is_frame_index = Map.empty\<rparr>,
          element_index := [''ext_grid'' \<mapsto> map int [0..<length eg_mask],
                            ''gen'' \<mapsto> map int [0..<length gen_mask]]\<rparr>"

text \<open>A case with three buses (bus 0 isolated), two branches and three generators, two of
  them at the same bus, and its network; builders that change nothing.\<close>

definition ex2_ppc :: ppc where
  "ex2_ppc = ex_case [ex_bus 2 1, ex_bus 0 4, ex_bus 1 3] [ex_branch 0 1 1, ex_branch 2 1 1]
                     [ex_gen 1 5 1, ex_gen 2 7 1, ex_gen 1 6 1]"

definition ex2_net :: pp_net where
  "ex2_net = ex_net [0, 1, 2] [True] [True, True]"

definition ex_builders :: builders where
  "ex_builders = \<lparr>select_is_elements_numba = net_is_elements,
                   calc_pq_elements_and_add_on_ppc = (\<lambda>net ppc seq. ppc),
                   calc_shunts_and_add_on_ppc = (\<lambda>net ppc. ppc),
                   update_gen_ppc = (\<lambda>net ppc. ppc),
                   update_trafo_trafo3w_ppc = (\<lambda>net ppc. ppc)\<rparr>"

text \<open>The compiled external case of \<open>ex2_ppc\<close> with the masks in its own cache, stored
  on the network as \<open>net["_ppc"]\<close>.\<close>

definition ex2_stored :: ppc where
  "ex2_stored =
     (ex_case [ex_bus 0 1, ex_bus 1 3, ex_bus 2 4] [ex_branch 2 1 1, ex_branch 0 1 1]
              [ex_gen 0 7 1, ex_gen 1 5 1, ex_gen 1 6 1])
       \<lparr>internal := \<lparr>Ybus = [], Yf = [], Yt = [], branch_is = [False, True],
                      gen_is = [True, True, True], DLF = [], buses_ord_bfs_nets = []\<rparr>\<rparr>"

definition ex2_update_net :: pp_net where
  "ex2_update_net = ex2_net\<lparr>net_ppc := [''_ppc'' \<mapsto> ex2_stored]\<rparr>"

text \<open>Builders of the branch helpers: a branch count \<open>n\<close> that leaves the lookups as they
  are, rated voltages equal to the 110 kV of the example buses, and factors 1. A network
  with two buses and a given branch lookup.\<close>

definition ex_branch_builders :: "nat \<Rightarrow> branch_builders" where
  "ex_branch_builders n =
     \<lparr>initialize_branch_lookup = (\<lambda>net. (n, net)),
      calc_tap_from_dataframe = (\<lambda>net tr. (110, 110, 0)),
      calc_nominal_ratio_from_dataframe = (\<lambda>ppc tr vhv vlv bl. 1),
      transformer_correction_factor = (\<lambda>vsc vscr kva cmax. 1)\<rparr>"

definition ex_net_branches :: "(string \<rightharpoonup> int \<times> int) \<Rightarrow> pp_net" where
  "ex_net_branches bl = net0\<lparr>lookups := \<lparr>array_lookup = [''bus'' \<mapsto> [0, 1]], branch_lookup = bl\<rparr>\<rparr>"

text \<open>A network with two buses and external grids at given buses, with given float columns;
  two external grids at bus 0 with all four columns; a case whose bus 0 already has a shunt
  admittance.\<close>

definition ex_eg_net :: "string \<Rightarrow> string option \<Rightarrow> int list \<Rightarrow> bool list \<Rightarrow> (string \<rightharpoonup> real list) \<Rightarrow> pp_net" where
  "ex_eg_net md cs buses m cols =
     net0\<lparr>opt_mode := md, opt_case := cs,
          lookups := \<lparr>array_lookup = [''bus'' \<mapsto> [0, 1]], branch_lookup = Map.empty\<rparr>,
          net_is_elements := \<lparr>is_mask = [''ext_grid'' \<mapsto> m], is_frame_index = Map.empty\<rparr>,
          ext_grid := \<lparr>eg_bus = buses, eg_float = cols\<rparr>\<rparr>"

definition ex_eg_cols :: "string \<rightharpoonup> real list" where
  "ex_eg_cols = [''s_sc_max_mva'' \<mapsto> [11 / 10, 11 / 10], ''rx_max'' \<mapsto> [0, 0],
                 ''x0x_max'' \<mapsto> [1, 1], ''r0x0_max'' \<mapsto> [1, 1]]"

definition ex_eg_ppc :: ppc where
  "ex_eg_ppc = ex_case [(ex_bus 0 3)\<lparr>GS := 7, BS := 9\<rparr>, ex_bus 1 1] [] []"

text \<open>Float columns for two external grids that differ in \<open>x0x_max\<close>, the columns of the
  second of them alone, and columns for three external grids.\<close>

definition ex_eg_cols2 :: "string \<rightharpoonup> real list" where
  "ex_eg_cols2 = [''s_sc_max_mva'' \<mapsto> [11 / 10, 11 / 10], ''rx_max'' \<mapsto> [0, 0],
                  ''x0x_max'' \<mapsto> [1, 3], ''r0x0_max'' \<mapsto> [1, 1]]"

definition ex_eg_cols1 :: "string \<rightharpoonup> real list" where
  "ex_eg_cols1 = [''s_sc_max_mva'' \<mapsto> [11 / 10], ''rx_max'' \<mapsto> [0],
                  ''x0x_max'' \<mapsto> [3], ''r0x0_max'' \<mapsto> [1]]"

definition ex_eg_cols3 :: "string \<rightharpoonup> real list" where
  "ex_eg_cols3 = [''s_sc_max_mva'' \<mapsto> [11 / 10, 11 / 10, 11 / 10], ''rx_max'' \<mapsto> [0, 0, 0],
                  ''x0x_max'' \<mapsto> [1, 3, 1], ''r0x0_max'' \<mapsto> [1, 1, 1]]"

text \<open>A transformer with vector group \<open>vg\<close>, leakage split \<open>s\<close> and a given service flag,
  whose zero-sequence short-circuit and magnetising impedances are both \<open>\<i>\<close> per unit; a
  network with two buses whose transformer table is the given list, the rows \<open>0\<close> to
  \<open>len\<close> of the branch table; a case with two buses and \<open>n\<close> fresh branch rows.\<close>

definition ex_trafo :: "string \<Rightarrow> real \<Rightarrow> bool \<Rightarrow> trafo_row" where
  "ex_trafo vg s ins =
     \<lparr>vector_group = vg, vsc_percent = 10, vscr_percent = 1, sn_kva = 1000, vsc0_percent = 100,
      vscr0_percent = 0, lv_bus = 1, hv_bus = 0, mag0_percent = 1, mag0_rx = 0,
      si0_hv_partial = s, parallel = 1, in_service = ins\<rparr>"

definition ex_trafo_net :: "trafo_row list \<Rightarrow> pp_net" where
  "ex_trafo_net trs =
     (ex_net_branches [''trafo'' \<mapsto> (0, int (length trs))])\<lparr>trafo := trs\<rparr>"

definition ex_trafo_ppc :: "nat \<Rightarrow> ppc" where
  "ex_trafo_ppc n = ex_case [ex_bus 0 3, ex_bus 1 1] (replicate n branch_row0) []"

section \<open>Facts about the primitives\<close>

lemma astype_int_of_int [simp]: "astype_int (of_int k) = k"
  by (simp add: astype_int_def)

lemma astype_int_of_nat [simp]: "astype_int (of_nat n) = int n"
  by (simp add: astype_int_def)

lemma np_index_in_range:
  "0 \<le> i \<Longrightarrow> i < int n \<Longrightarrow> np_index n i = Inr (nat i)"
  by (simp add: np_index_def)

lemma np_take_in_range:
  "\<forall>i \<in> set idx. 0 \<le> i \<and> i < int (length a) \<Longrightarrow>
   np_take a idx = Inr (map (\<lambda>i. a ! nat i) idx)"
  by (induction idx) (simp_all add: np_index_in_range)

lemma np_mask_put_remap:
  "np_mask_put xs (map p xs) (map f (filter p xs)) = map (\<lambda>x. if p x then f x else x) xs"
  by (induction xs) simp_all

lemma np_mask_self:
  "np_mask xs (map p xs) = Inr (filter p xs)"
proof -
  have "map fst (filter snd (zip xs (map p xs))) = filter p xs"
    by (induction xs) simp_all
  then show ?thesis by (simp add: np_mask_def)
qed

lemma update_lookup_entries_eq:
  assumes "\<forall>v \<in> set lookup. v < int (length e2i)"
  shows "update_lookup_entries net lookup e2i element =
     Inr (map (\<lambda>v. if 0 \<le> v then e2i ! nat v else v) lookup,
          write_lookup_to_net net element (map (\<lambda>v. if 0 \<le> v then e2i ! nat v else v) lookup))"
proof -
  have "np_take e2i (filter (\<lambda>v. 0 \<le> v) lookup) = Inr (map (\<lambda>i. e2i ! nat i) (filter (\<lambda>v. 0 \<le> v) lookup))"
    using assms by (intro np_take_in_range) simp
  then show ?thesis
    by (simp add: update_lookup_entries_def np_mask_self np_mask_put_remap Let_def)
qed

lemma np_index_length [simp]: "np_index n i = Inr k \<Longrightarrow> k < n"
  by (auto simp: np_index_def split: if_splits)

lemma np_put_seq_in_range:
  "length idx = length vals \<Longrightarrow> \<forall>i\<in>set idx. 0 \<le> i \<and> i < int (length a) \<Longrightarrow>
   np_put_seq a idx vals = Inr (fold (\<lambda>(i, v) a. a[nat i := v]) (zip idx vals) a)"
proof (induction idx arbitrary: a vals)
  case Nil
  then show ?case by simp
next
  case (Cons i idx)
  then obtain v vs where vals: "vals = v # vs" by (cases vals) auto
  with Cons show ?case by (simp add: np_index_in_range)
qed

lemma length_fold_update [simp]:
  "length (fold (\<lambda>(i, v) a. a[nat i := v]) ps a) = length a"
  by (induction ps arbitrary: a) auto

lemma fold_update_other:
  "j \<notin> nat ` set (map fst ps) \<Longrightarrow> fold (\<lambda>(i, v) a. a[nat i := v]) ps a ! j = a ! j"
  by (induction ps arbitrary: a) auto

lemma fold_update_nth:
  "distinct idx \<Longrightarrow> length idx = length vals \<Longrightarrow> k < length idx \<Longrightarrow>
   \<forall>i\<in>set idx. 0 \<le> i \<and> i < int (length a) \<Longrightarrow>
   fold (\<lambda>(i, v) a. a[nat i := v]) (zip idx vals) a ! nat (idx ! k) = vals ! k"
proof (induction idx arbitrary: a vals k)
  case Nil
  then show ?case by simp
next
  case (Cons i idx)
  then obtain v vs where vals: "vals = v # vs" by (cases vals) auto
  show ?case
  proof (cases k)
    case 0
    have "nat i \<notin> nat ` set (map fst (zip idx vs))"
    proof
      assume "nat i \<in> nat ` set (map fst (zip idx vs))"
      then obtain j where j: "j \<in> set idx" "nat i = nat j"
        by (auto dest: set_zip_leftD)
      with Cons.prems have "i = j" by auto
      with j Cons.prems show False by auto
    qed
    then have "fold (\<lambda>(i, v) a. a[nat i := v]) (zip idx vs) (a[nat i := v]) ! nat i = a[nat i := v] ! nat i"
      by (rule fold_update_other)
    moreover have "nat i < length a" using Cons.prems by auto
    ultimately show ?thesis using 0 vals by simp
  next
    case (Suc k')
    with Cons.prems vals have "fold (\<lambda>(i, v) a. a[nat i := v]) (zip idx vs) (a[nat i := v]) ! nat (idx ! k') = vs ! k'"
      by (intro Cons.IH) auto
    with Suc vals show ?thesis by simp
  qed
qed


lemma perm_ids_props:
  assumes "mset ids = mset (map int [0..<n])"
  shows "distinct ids" "set ids = int ` {0..<n}" "length ids = n"
proof -
  have d: "distinct (map int [0..<n])" by (simp add: distinct_map)
  show "distinct ids" using assms d by (metis mset_eq_imp_distinct_iff)
  show "set ids = int ` {0..<n}" using assms by (metis mset_eq_setD set_map set_upt)
  show "length ids = n" using assms by (metis length_map length_upt mset_eq_length minus_nat.diff_0)
qed

lemma np_put_perm:
  assumes "mset ids = mset (map int [0..<n])"
  shows "\<exists>e2i. np_put (replicate n 0) ids (map int [0..<n]) = Inr e2i \<and> length e2i = n \<and>
            (\<forall>k < n. e2i ! nat (ids ! k) = int k)"
proof -
  note p = perm_ids_props [OF assms]
  have r: "\<forall>i\<in>set ids. 0 \<le> i \<and> i < int (length (replicate n (0::int)))"
    using p(2) by auto
  have "np_put (replicate n 0) ids (map int [0..<n]) =
          Inr (fold (\<lambda>(i, v) a. a[nat i := v]) (zip ids (map int [0..<n])) (replicate n 0))"
    using p(3) r by (simp add: np_put_def np_put_seq_in_range)
  moreover have "\<forall>k < n. fold (\<lambda>(i, v) a. a[nat i := v]) (zip ids (map int [0..<n])) (replicate n 0) ! nat (ids ! k) = int k"
  proof (intro allI impI)
    fix k assume k: "k < n"
    have "fold (\<lambda>(i, v) a. a[nat i := v]) (zip ids (map int [0..<n])) (replicate n 0) ! nat (ids ! k) = map int [0..<n] ! k"
      using p k r by (intro fold_update_nth) auto
    then show "fold (\<lambda>(i, v) a. a[nat i := v]) (zip ids (map int [0..<n])) (replicate n 0) ! nat (ids ! k) = int k"
      using k by simp
  qed
  ultimately show ?thesis by simp
qed


lemma filter_partition_mset:
  "mset (map f (filter P xs @ filter (\<lambda>x. \<not> P x) xs)) = mset (map f xs)"
  by (induction xs) simp_all

lemma filter_partition_length:
  "length (filter P xs) + length (filter (\<lambda>x. \<not> P x) xs) = length xs"
  by (induction xs) simp_all

lemma ppc2ppci_bus_eq:
  assumes perm: "mset (map (\<lambda>r. astype_int (BUS_I r)) (bus ppc)) = mset (map int [0..<length (bus ppc)])"
  defines "A \<equiv> filter (\<lambda>r. BUS_TYPE r \<noteq> NONE) (bus ppc)"
  defines "B \<equiv> filter (\<lambda>r. BUS_TYPE r = NONE) (bus ppc)"
  shows "\<exists>e2i. ppc2ppci_bus ppc ppci =
            Inr (ppc\<lparr>bus := map2 (\<lambda>r k. r\<lparr>BUS_I := real k\<rparr>) (A @ B) [0..<length (bus ppc)]\<rparr>,
                 ppci\<lparr>bus := map2 (\<lambda>r k. r\<lparr>BUS_I := real k\<rparr>) A [0..<length A]\<rparr>, e2i) \<and>
          length e2i = length (bus ppc) \<and>
          (\<forall>k < length (bus ppc). e2i ! nat (astype_int (BUS_I ((A @ B) ! k))) = int k)"
proof -
  let ?f = "\<lambda>r. astype_int (BUS_I r)"
  let ?N = "length (bus ppc)"
  have lenR: "length (A @ B) = ?N"
    using filter_partition_length [of "\<lambda>r. BUS_TYPE r \<noteq> NONE" "bus ppc"] by (simp add: A_def B_def)
  have mR: "mset (map ?f (A @ B)) = mset (map int [0..<?N])"
    using filter_partition_mset [of ?f "\<lambda>r. BUS_TYPE r \<noteq> NONE" "bus ppc"] perm
    by (simp add: A_def B_def)
  from np_put_perm [OF mR] obtain e2i where
    e: "np_put (replicate ?N 0) (map ?f (A @ B)) (map int [0..<?N]) = Inr e2i"
       "length e2i = ?N" "\<forall>k < ?N. e2i ! nat (map ?f (A @ B) ! k) = int k"
    by blast
  have R': "map2 (\<lambda>r k. r\<lparr>BUS_I := real_of_int k\<rparr>) (A @ B) (map int [0..<?N])
          = map2 (\<lambda>r k. r\<lparr>BUS_I := real k\<rparr>) (A @ B) [0..<?N]"
    by (simp add: zip_map2 case_prod_unfold)
  have lenA: "length A \<le> ?N" using lenR by simp
  have ci: "map2 (\<lambda>r s. r\<lparr>BUS_I := BUS_I s\<rparr>) A
              (take (length A) (map2 (\<lambda>r k. r\<lparr>BUS_I := real k\<rparr>) (A @ B) [0..<?N]))
          = map2 (\<lambda>r k. r\<lparr>BUS_I := real k\<rparr>) A [0..<length A]"
    using lenA lenR by (intro nth_equalityI) (simp_all add: nth_append)
  have "ppc2ppci_bus ppc ppci =
            Inr (ppc\<lparr>bus := map2 (\<lambda>r k. r\<lparr>BUS_I := real k\<rparr>) (A @ B) [0..<?N]\<rparr>,
                 ppci\<lparr>bus := map2 (\<lambda>r k. r\<lparr>BUS_I := real k\<rparr>) A [0..<length A]\<rparr>, e2i)"
    using e(1) lenR R' ci
    by (simp add: ppc2ppci_bus_def Let_def A_def B_def)
  moreover have "\<forall>k < ?N. e2i ! nat (?f ((A @ B) ! k)) = int k"
    using e(3) lenR by (simp del: map_append)
  ultimately show ?thesis using e(2) by blast
qed


lemma renumbered_split:
  assumes "length A + length B = N"
  shows "map2 (\<lambda>r k. r\<lparr>BUS_I := real k\<rparr>) (A @ B) [0..<N]
       = map2 (\<lambda>r k. r\<lparr>BUS_I := real k\<rparr>) A [0..<length A]
         @ map2 (\<lambda>r k. r\<lparr>BUS_I := real k\<rparr>) B [length A..<N]"
proof -
  have "[0..<N] = [0..<length A] @ [length A..<N]"
    using assms by (metis le_add1 upt_add_eq_append zero_le add_0)
  then show ?thesis by (simp add: zip_append)
qed

lemma filter_renumbered:
  assumes "\<forall>r \<in> set xs. Q r = b" and "\<And>r k. Q (r\<lparr>BUS_I := real k\<rparr>) = Q r"
  shows "filter Q (map2 (\<lambda>r k. r\<lparr>BUS_I := real k\<rparr>) xs ks) =
           (if b then map2 (\<lambda>r k. r\<lparr>BUS_I := real k\<rparr>) xs ks else [])"
proof -
  have "\<forall>x \<in> set (map2 (\<lambda>r k. r\<lparr>BUS_I := real k\<rparr>) xs ks). Q x = b"
    using assms by (auto dest: set_zip_leftD)
  then show ?thesis by (auto simp: filter_empty_conv filter_id_conv)
qed

lemma renumber_again:
  "map2 (\<lambda>r k. r\<lparr>BUS_I := real k\<rparr>) (map2 (\<lambda>r k. r\<lparr>BUS_I := real k\<rparr>) xs [m..<n]) [m..<n]
   = map2 (\<lambda>r k. r\<lparr>BUS_I := real k\<rparr>) xs [m..<n]"
  by (intro nth_equalityI) simp_all

lemma ppc2ppci_bus_again:
  fixes ppc ppci :: ppc
  assumes perm: "mset (map (\<lambda>r. astype_int (BUS_I r)) (bus ppc)) = mset (map int [0..<length (bus ppc)])"
  defines "A \<equiv> filter (\<lambda>r. BUS_TYPE r \<noteq> NONE) (bus ppc)"
  defines "B \<equiv> filter (\<lambda>r. BUS_TYPE r = NONE) (bus ppc)"
  defines "ppc1 \<equiv> ppc\<lparr>bus := map2 (\<lambda>r k. r\<lparr>BUS_I := real k\<rparr>) (A @ B) [0..<length (bus ppc)]\<rparr>"
  defines "ppci1 \<equiv> ppci\<lparr>bus := map2 (\<lambda>r k. r\<lparr>BUS_I := real k\<rparr>) A [0..<length A]\<rparr>"
  shows "ppc2ppci_bus ppc1 ppci1 = Inr (ppc1, ppci1, map int [0..<length (bus ppc)])"
proof -
  let ?N = "length (bus ppc)"
  let ?g = "\<lambda>r k. r\<lparr>BUS_I := real k\<rparr>"
  let ?A' = "map2 ?g A [0..<length A]"
  let ?B' = "map2 ?g B [length A..<?N]"
  have len: "length A + length B = ?N"
    using filter_partition_length [of "\<lambda>r. BUS_TYPE r \<noteq> NONE" "bus ppc"] by (simp add: A_def B_def)
  have bus1: "bus ppc1 = ?A' @ ?B'"
    using renumbered_split [OF len] by (simp add: ppc1_def)
  have lenA': "length ?A' = length A" by simp
  have lenB': "length ?B' = length B" using len by simp
  have len1: "length (bus ppc1) = ?N" using len by (simp add: ppc1_def)
  have ids1: "map (\<lambda>r. astype_int (BUS_I r)) (bus ppc1) = map int [0..<?N]"
    using len by (intro nth_equalityI) (simp_all add: ppc1_def)
  have perm1: "mset (map (\<lambda>r. astype_int (BUS_I r)) (bus ppc1)) = mset (map int [0..<length (bus ppc1)])"
    using ids1 len1 by simp
  have fA: "filter (\<lambda>r. BUS_TYPE r \<noteq> NONE) (bus ppc1) = ?A'"
    using filter_renumbered [of A "\<lambda>r. BUS_TYPE r \<noteq> NONE" True "[0..<length A]"]
          filter_renumbered [of B "\<lambda>r. BUS_TYPE r \<noteq> NONE" False "[length A..<?N]"]
    by (simp add: bus1 A_def B_def)
  have fB: "filter (\<lambda>r. BUS_TYPE r = NONE) (bus ppc1) = ?B'"
    using filter_renumbered [of A "\<lambda>r. BUS_TYPE r = NONE" False "[0..<length A]"]
          filter_renumbered [of B "\<lambda>r. BUS_TYPE r = NONE" True "[length A..<?N]"]
    by (simp add: bus1 A_def B_def)
  from ppc2ppci_bus_eq [OF perm1, of ppci1] obtain e2i where
    r: "ppc2ppci_bus ppc1 ppci1 =
          Inr (ppc1\<lparr>bus := map2 ?g (?A' @ ?B') [0..<?N]\<rparr>,
               ppci1\<lparr>bus := map2 ?g ?A' [0..<length A]\<rparr>, e2i)"
    and le: "length e2i = ?N"
    and e: "\<forall>k < ?N. e2i ! nat (astype_int (BUS_I ((?A' @ ?B') ! k))) = int k"
    unfolding fA fB len1 lenA' by blast
  have b1: "map2 ?g (?A' @ ?B') [0..<?N] = bus ppc1"
    using renumbered_split [of ?A' ?B' ?N] len lenB' renumber_again [of A 0 "length A"]
      renumber_again [of B "length A" ?N]
    by (simp add: bus1)
  have b2: "map2 ?g ?A' [0..<length A] = bus ppci1"
    using renumber_again [of A 0 "length A"] by (simp add: ppci1_def)
  have "e2i = map int [0..<?N]"
  proof (intro nth_equalityI)
    show "length e2i = length (map int [0..<?N])" using le by simp
    fix k assume "k < length e2i"
    then have k: "k < ?N" using le by simp
    have "map (\<lambda>r. astype_int (BUS_I r)) (bus ppc1) ! k = map int [0..<?N] ! k"
      using ids1 by simp
    then have "astype_int (BUS_I (bus ppc1 ! k)) = int k"
      using k len1 by simp
    then have "astype_int (BUS_I ((?A' @ ?B') ! k)) = int k"
      by (simp only: bus1)
    with e k have "e2i ! nat (int k) = int k" by metis
    then show "e2i ! k = map int [0..<?N] ! k" using k by simp
  qed
  with r b1 b2 show ?thesis by simp
qed

section \<open>Facts about the compiler\<close>

lemma py_bind_eq_Inr: "py_bind m f = Inr y \<longleftrightarrow> (\<exists>x. m = Inr x \<and> f x = Inr y)"
  by (cases m) simp_all

lemma np_take_InrD:
  "np_take a idx = Inr ys \<Longrightarrow> length ys = length idx \<and> set ys \<subseteq> set a"
proof (induction idx arbitrary: ys)
  case Nil
  then show ?case by simp
next
  case (Cons i idx)
  then show ?case
    by (fastforce simp: py_bind_eq_Inr dest: np_index_length)
qed

lemma np_put_seq_InrD:
  "np_put_seq a idx vals = Inr a' \<Longrightarrow> length a' = length a \<and> set a' \<subseteq> set a \<union> set vals"
proof (induction a idx vals arbitrary: a' rule: np_put_seq.induct)
  case (1 a i js v vs)
  from "1.prems" obtain k where k: "np_index (length a) i = Inr k"
    and r: "np_put_seq (a[k := v]) js vs = Inr a'"
    by (auto simp: py_bind_eq_Inr)
  from "1.IH" [OF r] have "length a' = length a" "set a' \<subseteq> set (a[k := v]) \<union> set vs"
    by simp_all
  moreover have "set (a[k := v]) \<subseteq> insert v (set a)" by (rule set_update_subset_insert)
  ultimately show ?case by auto
qed simp_all

lemma np_put_InrD:
  "np_put a idx vals = Inr a' \<Longrightarrow> length a' = length a \<and> set a' \<subseteq> set a \<union> set vals"
  by (auto simp: np_put_def dest: np_put_seq_InrD split: if_splits)

lemma ppc2ppci_bus_InrD:
  assumes "ppc2ppci_bus ppc ppci = Inr (ppc1, ppci1, e2i)"
  shows "ppc1 = ppc\<lparr>bus := map2 (\<lambda>r k. r\<lparr>BUS_I := real k\<rparr>)
                   (filter (\<lambda>r. BUS_TYPE r \<noteq> NONE) (bus ppc) @ filter (\<lambda>r. BUS_TYPE r = NONE) (bus ppc))
                   [0..<length (bus ppc)]\<rparr>"
    and "ppci1 = ppci\<lparr>bus := map2 (\<lambda>r k. r\<lparr>BUS_I := real k\<rparr>)
                   (filter (\<lambda>r. BUS_TYPE r \<noteq> NONE) (bus ppc))
                   [0..<length (filter (\<lambda>r. BUS_TYPE r \<noteq> NONE) (bus ppc))]\<rparr>"
    and "length e2i = length (bus ppc)"
    and "\<forall>v \<in> set e2i. 0 \<le> v \<and> v < int (length (bus ppc))"
proof -
  let ?A = "filter (\<lambda>r. BUS_TYPE r \<noteq> NONE) (bus ppc)"
  let ?B = "filter (\<lambda>r. BUS_TYPE r = NONE) (bus ppc)"
  let ?N = "length (bus ppc)"
  have lenR: "length (?A @ ?B) = ?N"
    using filter_partition_length [of "\<lambda>r. BUS_TYPE r \<noteq> NONE" "bus ppc"] by simp
  have R': "map2 (\<lambda>r k. r\<lparr>BUS_I := real_of_int k\<rparr>) (?A @ ?B) (map int [0..<?N])
          = map2 (\<lambda>r k. r\<lparr>BUS_I := real k\<rparr>) (?A @ ?B) [0..<?N]"
    by (simp add: zip_map2 case_prod_unfold)
  have lenA: "length ?A \<le> ?N" using lenR by simp
  have ci: "map2 (\<lambda>r s. r\<lparr>BUS_I := BUS_I s\<rparr>) ?A
              (take (length ?A) (map2 (\<lambda>r k. r\<lparr>BUS_I := real k\<rparr>) (?A @ ?B) [0..<?N]))
          = map2 (\<lambda>r k. r\<lparr>BUS_I := real k\<rparr>) ?A [0..<length ?A]"
    using lenA lenR by (intro nth_equalityI) (simp_all add: nth_append)
  from assms lenR have put: "np_put (replicate ?N 0) (map (\<lambda>r. astype_int (BUS_I r)) (?A @ ?B)) (map int [0..<?N]) = Inr e2i"
    by (auto simp: ppc2ppci_bus_def Let_def py_bind_eq_Inr)
  from assms lenR R' ci show "ppc1 = ppc\<lparr>bus := map2 (\<lambda>r k. r\<lparr>BUS_I := real k\<rparr>) (?A @ ?B) [0..<?N]\<rparr>"
    by (auto simp: ppc2ppci_bus_def Let_def py_bind_eq_Inr)
  from assms lenR R' ci show "ppci1 = ppci\<lparr>bus := map2 (\<lambda>r k. r\<lparr>BUS_I := real k\<rparr>) ?A [0..<length ?A]\<rparr>"
    by (auto simp: ppc2ppci_bus_def Let_def py_bind_eq_Inr)
  from np_put_InrD [OF put] show "length e2i = ?N" by simp
  from np_put_InrD [OF put] have sub: "set e2i \<subseteq> set (replicate ?N 0) \<union> set (map int [0..<?N])"
    by blast
  show "\<forall>v \<in> set e2i. 0 \<le> v \<and> v < int ?N"
  proof
    fix v assume "v \<in> set e2i"
    with sub have "v \<in> set (replicate ?N (0::int)) \<or> v \<in> set (map int [0..<?N])" by blast
    then show "0 \<le> v \<and> v < int ?N" by (auto simp: set_replicate_conv_if split: if_splits)
  qed
qed

lemma and_bools_iff:
  "((s::int) AND of_bool f AND of_bool t) \<noteq> 0 \<longleftrightarrow> odd s \<and> f \<and> t"
  by (cases f; cases t) (simp_all add: and_one_eq odd_iff_mod_2_eq_one)

lemma map2_self: "map2 G xs (map H xs) = map (\<lambda>x. G x (H x)) xs"
  by (induction xs) simp_all

lemma bus_status_at_in_range:
  assumes "map (\<lambda>r. astype_int (BUS_I r)) (bus ppc) = map int [0..<length (bus ppc)]"
    and "\<forall>i \<in> set refs. 0 \<le> i \<and> i < int (length (bus ppc))"
  shows "bus_status_at ppc refs = Inr (map (\<lambda>i. BUS_TYPE (bus ppc ! nat i) \<noteq> NONE) refs)"
proof -
  have 1: "np_take (map int [0..<length (bus ppc)]) refs = Inr (map (\<lambda>i. map int [0..<length (bus ppc)] ! nat i) refs)"
    using assms(2) by (intro np_take_in_range) simp
  have 2: "map (\<lambda>i. map int [0..<length (bus ppc)] ! nat i) refs = refs"
    using assms(2) by (intro map_idI) auto
  have 3: "np_take (map (\<lambda>t. t \<noteq> NONE) (map BUS_TYPE (bus ppc))) refs
         = Inr (map (\<lambda>i. map (\<lambda>t. t \<noteq> NONE) (map BUS_TYPE (bus ppc)) ! nat i) refs)"
    using assms(2) by (intro np_take_in_range) simp
  have 4: "map (\<lambda>i. map (\<lambda>t. t \<noteq> NONE) (map BUS_TYPE (bus ppc)) ! nat i) refs
         = map (\<lambda>i. BUS_TYPE (bus ppc ! nat i) \<noteq> NONE) refs"
    using assms(2) by (intro map_cong) auto
  show ?thesis
    unfolding bus_status_at_def Let_def assms(1) 1 2 py_bind.simps 3 4 ..
qed

lemma mask_zip3:
  "map (\<lambda>(b, f, t). Q b f t) (zip xs (zip (map F xs) (map T xs))) = map (\<lambda>b. Q b (F b) (T b)) xs"
  by (induction xs) simp_all

lemma ppc2ppci_select_InrD:
  assumes sel: "ppc2ppci_select ppc ppci = Inr p"
    and ids: "map (\<lambda>r. astype_int (BUS_I r)) (bus ppc) = map int [0..<length (bus ppc)]"
    and gr: "\<forall>g \<in> set (gen ppc). 0 \<le> astype_int (GEN_BUS g) \<and> astype_int (GEN_BUS g) < int (length (bus ppc))"
    and fr: "\<forall>b \<in> set (branch ppc). 0 \<le> astype_int (Re (F_BUS b)) \<and> astype_int (Re (F_BUS b)) < int (length (bus ppc))"
    and tr: "\<forall>b \<in> set (branch ppc). 0 \<le> astype_int (Re (T_BUS b)) \<and> astype_int (Re (T_BUS b)) < int (length (bus ppc))"
  defines "Pg \<equiv> \<lambda>g. 0 < GEN_STATUS g \<and> BUS_TYPE (bus ppc ! nat (astype_int (GEN_BUS g))) \<noteq> NONE"
  defines "Pb \<equiv> \<lambda>b. (astype_int (Re (BR_STATUS b))
                       AND of_bool (BUS_TYPE (bus ppc ! nat (astype_int (Re (F_BUS b)))) \<noteq> NONE)
                       AND of_bool (BUS_TYPE (bus ppc ! nat (astype_int (Re (T_BUS b)))) \<noteq> NONE)) \<noteq> 0"
  shows "gen p = filter Pg (gen ppc)" "branch p = filter Pb (branch ppc)"
    "internal p = (internal ppci)\<lparr>gen_is := map Pg (gen ppc), branch_is := map Pb (branch ppc)\<rparr>"
    "bus p = bus ppci" "userfcn p = userfcn ppci" "dcline p = dcline ppci"
proof -
  have g: "bus_status_at ppc (map (\<lambda>g. astype_int (GEN_BUS g)) (gen ppc))
         = Inr (map (\<lambda>i. BUS_TYPE (bus ppc ! nat i) \<noteq> NONE) (map (\<lambda>g. astype_int (GEN_BUS g)) (gen ppc)))"
    using gr by (intro bus_status_at_in_range [OF ids]) auto
  have f: "bus_status_at ppc (map (\<lambda>b. astype_int (Re (F_BUS b))) (branch ppc))
         = Inr (map (\<lambda>i. BUS_TYPE (bus ppc ! nat i) \<noteq> NONE) (map (\<lambda>b. astype_int (Re (F_BUS b))) (branch ppc)))"
    using fr by (intro bus_status_at_in_range [OF ids]) auto
  have t: "bus_status_at ppc (map (\<lambda>b. astype_int (Re (T_BUS b))) (branch ppc))
         = Inr (map (\<lambda>i. BUS_TYPE (bus ppc ! nat i) \<noteq> NONE) (map (\<lambda>b. astype_int (Re (T_BUS b))) (branch ppc)))"
    using tr by (intro bus_status_at_in_range [OF ids]) auto
  have gs: "map2 (\<lambda>g b. 0 < GEN_STATUS g \<and> b) (gen ppc)
              (map (\<lambda>i. BUS_TYPE (bus ppc ! nat i) \<noteq> NONE) (map (\<lambda>g. astype_int (GEN_BUS g)) (gen ppc)))
          = map Pg (gen ppc)"
    unfolding Pg_def by (simp add: map2_self o_def)
  have brs: "map (\<lambda>(b, f, t). (astype_int (Re (BR_STATUS b)) AND of_bool f AND of_bool t) \<noteq> 0)
               (zip (branch ppc)
                 (zip (map (\<lambda>i. BUS_TYPE (bus ppc ! nat i) \<noteq> NONE) (map (\<lambda>b. astype_int (Re (F_BUS b))) (branch ppc)))
                      (map (\<lambda>i. BUS_TYPE (bus ppc ! nat i) \<noteq> NONE) (map (\<lambda>b. astype_int (Re (T_BUS b))) (branch ppc)))))
           = map Pb (branch ppc)"
    unfolding Pb_def map_map o_def by (rule mask_zip3)
  from sel obtain p3 where p: "p = p3\<lparr>branch := filter Pb (branch ppc), gen := filter Pg (gen ppc)\<rparr>"
    and p3: "p3 = ppci\<lparr>internal := (internal ppci)\<lparr>gen_is := map Pg (gen ppc), branch_is := map Pb (branch ppc)\<rparr>\<rparr>
           \<or> (\<exists>a. p3 = ppci\<lparr>internal := (internal ppci)\<lparr>gen_is := map Pg (gen ppc), branch_is := map Pb (branch ppc)\<rparr>, areas := Some a\<rparr>)"
    unfolding ppc2ppci_select_def g f t py_bind.simps Let_def gs brs np_mask_self
    by (cases "areas ppc") (auto simp: py_bind_eq_Inr)
  from p p3 show "gen p = filter Pg (gen ppc)" by auto
  from p p3 show "branch p = filter Pb (branch ppc)" by auto
  from p p3 show "internal p = (internal ppci)\<lparr>gen_is := map Pg (gen ppc), branch_is := map Pb (branch ppc)\<rparr>" by auto
  from p p3 show "bus p = bus ppci" "userfcn p = userfcn ppci" "dcline p = dcline ppci" by auto
qed

lemma np_take_InrD_nth:
  "np_take a idx = Inr ys \<Longrightarrow> length ys = length idx"
  using np_take_InrD by blast

lemma set_map2_update:
  assumes "x \<in> set (map2 G xs vs)"
  shows "\<exists>r \<in> set xs. \<exists>v \<in> set vs. x = G r v"
  using assms by (auto dest: set_zip_leftD set_zip_rightD)

lemma ppc2ppci_renumber_InrD:
  assumes "ppc2ppci_renumber e2i p = Inr p'"
  shows "bus p' = bus p" "dcline p' = dcline p"
    "\<forall>g \<in> set (gen p'). \<exists>v \<in> set e2i. GEN_BUS g = real_of_int v"
    "\<forall>b \<in> set (branch p'). (\<exists>v \<in> set e2i. F_BUS b = of_int v) \<and> (\<exists>v \<in> set e2i. T_BUS b = of_int v)"
proof -
  note defs = ppc2ppci_renumber_def Let_def py_bind_eq_Inr
  from assms show "bus p' = bus p" "dcline p' = dcline p"
    by (cases "areas p"; auto simp: defs)+
  from assms have "\<exists>gb. np_take e2i (map (\<lambda>g. astype_int (GEN_BUS g)) (gen p)) = Inr gb \<and>
      gen p' = map2 (\<lambda>g v. g\<lparr>GEN_BUS := of_int v\<rparr>) (gen p) gb"
    by (cases "areas p"; auto simp: defs)
  then obtain gb where gb: "np_take e2i (map (\<lambda>g. astype_int (GEN_BUS g)) (gen p)) = Inr gb"
    and g: "gen p' = map2 (\<lambda>g v. g\<lparr>GEN_BUS := of_int v\<rparr>) (gen p) gb" by blast
  from assms have "\<exists>fb tb xs. np_take e2i (map (\<lambda>b. astype_int (Re (F_BUS b))) (branch p)) = Inr fb \<and>
      np_take e2i xs = Inr tb \<and>
      branch p' = map2 (\<lambda>b v. b\<lparr>T_BUS := of_int v\<rparr>)
                      (map2 (\<lambda>b v. b\<lparr>F_BUS := of_int v\<rparr>) (branch p) fb) tb"
    by (cases "areas p"; clarsimp simp: defs; blast)
  then obtain fb tb xs where fb: "np_take e2i (map (\<lambda>b. astype_int (Re (F_BUS b))) (branch p)) = Inr fb"
    and tb: "np_take e2i xs = Inr tb"
    and b: "branch p' = map2 (\<lambda>b v. b\<lparr>T_BUS := of_int v\<rparr>)
                      (map2 (\<lambda>b v. b\<lparr>F_BUS := of_int v\<rparr>) (branch p) fb) tb" by blast
  from np_take_InrD [OF gb] np_take_InrD [OF fb] np_take_InrD [OF tb]
  have sub: "set gb \<subseteq> set e2i" "set fb \<subseteq> set e2i" "set tb \<subseteq> set e2i" by simp_all
  show "\<forall>g \<in> set (gen p'). \<exists>v \<in> set e2i. GEN_BUS g = real_of_int v"
    unfolding g using sub(1) by (fastforce dest!: set_map2_update)
  show "\<forall>b \<in> set (branch p'). (\<exists>v \<in> set e2i. F_BUS b = of_int v) \<and> (\<exists>v \<in> set e2i. T_BUS b = of_int v)"
    unfolding b using sub(2,3) by (fastforce dest!: set_map2_update)
qed

lemma ppc2ppci_sort_gens_InrD:
  assumes "ppc2ppci_sort_gens argsort p = Inr (p', sg, ngp)"
  shows "sg = argsort (map GEN_BUS (gen p))" "p' = p\<lparr>gen := gen p'\<rparr>"
    "np_take (gen p) sg = Inr (gen p')"
    "np_put (map int [0..<length sg]) sg (map int [0..<length sg]) = Inr ngp"
  using assms by (auto simp: ppc2ppci_sort_gens_def Let_def py_bind_eq_Inr)

lemma py_get_eq_Inr: "py_get d k n = Inr v \<longleftrightarrow> d k = Some v"
  by (simp add: py_get_def split: option.splits)

lemma ppc2ppci_InrD:
  assumes "ppc2ppci argsort run_userfcn ppc ppci net = Inr (ppc', ppci', net')"
  shows "\<exists>bus_lookup ppc1 ppci1 e2i bl1 net1 ppc3 sg ngp ppci2.
      array_lookup (lookups net) ''bus'' = Some bus_lookup \<and>
      ppc2ppci_bus ppc ppci = Inr (ppc1, ppci1, e2i) \<and>
      update_lookup_entries net bus_lookup e2i ''bus'' = Inr (bl1, net1) \<and>
      ppc2ppci_renumber e2i (drop_empty_areas ppc1) = Inr ppc3 \<and>
      ppc2ppci_sort_gens argsort ppc3 = Inr (ppc', sg, ngp) \<and>
      ppc2ppci_gen_lookups net1 ngp = Inr net' \<and>
      ppc2ppci_select ppc' ppci1 = Inr ppci2 \<and>
      ppc2ppci_callbacks run_userfcn ppc' ppci2 = Inr ppci'"
  using assms
  by (auto simp: ppc2ppci_def py_get_eq_Inr py_bind_eq_Inr)

lemma ppc2ppci_callbacks_no_userfcn:
  "userfcn ppci = None \<Longrightarrow> ppc2ppci_callbacks run_userfcn ppc ppci = Inr p \<Longrightarrow>
   p = (case dcline ppc of None \<Rightarrow> ppci | Some d \<Rightarrow> ppci\<lparr>dcline := Some d\<rparr>)"
  by (auto simp: ppc2ppci_callbacks_def Let_def split: option.splits)


lemma renumbered_ids:
  "length xs = N \<Longrightarrow>
   map (\<lambda>r. astype_int (BUS_I r)) (map2 (\<lambda>r k. r\<lparr>BUS_I := real k\<rparr>) xs [0..<N]) = map int [0..<N]"
  by (intro nth_equalityI) simp_all

lemma ppc2ppci_external_case:
  assumes "ppc2ppci argsort run_userfcn ppc ppci net = Inr (ppc', ppci', net')"
  shows "map (\<lambda>r. astype_int (BUS_I r)) (bus ppc') = map int [0..<length (bus ppc')]"
    and "\<forall>g \<in> set (gen ppc'). 0 \<le> astype_int (GEN_BUS g) \<and> astype_int (GEN_BUS g) < int (length (bus ppc'))"
    and "\<forall>b \<in> set (branch ppc'). 0 \<le> astype_int (Re (F_BUS b)) \<and> astype_int (Re (F_BUS b)) < int (length (bus ppc'))"
    and "\<forall>b \<in> set (branch ppc'). 0 \<le> astype_int (Re (T_BUS b)) \<and> astype_int (Re (T_BUS b)) < int (length (bus ppc'))"
proof -
  from ppc2ppci_InrD [OF assms] obtain ppc1 ppci1 e2i ppc3 sg ngp where
      b: "ppc2ppci_bus ppc ppci = Inr (ppc1, ppci1, e2i)"
    and r: "ppc2ppci_renumber e2i (drop_empty_areas ppc1) = Inr ppc3"
    and s: "ppc2ppci_sort_gens argsort ppc3 = Inr (ppc', sg, ngp)"
    by blast
  let ?R = "filter (\<lambda>r. BUS_TYPE r \<noteq> NONE) (bus ppc) @ filter (\<lambda>r. BUS_TYPE r = NONE) (bus ppc)"
  have lenR: "length ?R = length (bus ppc)"
    using filter_partition_length [of "\<lambda>r. BUS_TYPE r \<noteq> NONE" "bus ppc"] by simp
  from ppc2ppci_bus_InrD(1) [OF b]
  have b1: "bus ppc1 = map2 (\<lambda>r k. r\<lparr>BUS_I := real k\<rparr>) ?R [0..<length (bus ppc)]" by simp
  have b3: "bus ppc3 = bus ppc1"
    using ppc2ppci_renumber_InrD(1) [OF r] by (simp add: drop_empty_areas_def)
  from ppc2ppci_sort_gens_InrD(2) [OF s] have "bus ppc' = bus (ppc3\<lparr>gen := gen ppc'\<rparr>)"
    and br: "branch ppc' = branch (ppc3\<lparr>gen := gen ppc'\<rparr>)" by simp_all
  then have b': "bus ppc' = bus ppc1" and br': "branch ppc' = branch ppc3" using b3 by simp_all
  have len': "length (bus ppc') = length (bus ppc)" using b' b1 lenR by simp
  show "map (\<lambda>r. astype_int (BUS_I r)) (bus ppc') = map int [0..<length (bus ppc')]"
    unfolding len' unfolding b' b1 using lenR by (rule renumbered_ids)
  note e = ppc2ppci_bus_InrD(4) [OF b]
  from np_take_InrD [OF ppc2ppci_sort_gens_InrD(3) [OF s]]
  have sub: "set (gen ppc') \<subseteq> set (gen ppc3)" by simp
  show "\<forall>g \<in> set (gen ppc'). 0 \<le> astype_int (GEN_BUS g) \<and> astype_int (GEN_BUS g) < int (length (bus ppc'))"
  proof
    fix g assume "g \<in> set (gen ppc')"
    with sub ppc2ppci_renumber_InrD(3) [OF r] obtain v where "v \<in> set e2i" "GEN_BUS g = real_of_int v"
      by blast
    with e len' show "0 \<le> astype_int (GEN_BUS g) \<and> astype_int (GEN_BUS g) < int (length (bus ppc'))"
      by simp
  qed
  have fb: "\<forall>b \<in> set (branch ppc'). \<exists>v \<in> set e2i. F_BUS b = of_int v"
    and tb: "\<forall>b \<in> set (branch ppc'). \<exists>v \<in> set e2i. T_BUS b = of_int v"
    using ppc2ppci_renumber_InrD(4) [OF r] br' by simp_all
  show "\<forall>b \<in> set (branch ppc'). 0 \<le> astype_int (Re (F_BUS b)) \<and> astype_int (Re (F_BUS b)) < int (length (bus ppc'))"
  proof
    fix b assume "b \<in> set (branch ppc')"
    with fb obtain v where "v \<in> set e2i" "F_BUS b = of_int v" by blast
    with e len' show "0 \<le> astype_int (Re (F_BUS b)) \<and> astype_int (Re (F_BUS b)) < int (length (bus ppc'))"
      by simp
  qed
  show "\<forall>b \<in> set (branch ppc'). 0 \<le> astype_int (Re (T_BUS b)) \<and> astype_int (Re (T_BUS b)) < int (length (bus ppc'))"
  proof
    fix b assume "b \<in> set (branch ppc')"
    with tb obtain v where "v \<in> set e2i" "T_BUS b = of_int v" by blast
    with e len' show "0 \<le> astype_int (Re (T_BUS b)) \<and> astype_int (Re (T_BUS b)) < int (length (bus ppc'))"
      by simp
  qed
qed

lemma ppc2ppci_select_keeps:
  "ppc2ppci_select ppc ppci = Inr p \<Longrightarrow>
   bus p = bus ppci \<and> userfcn p = userfcn ppci \<and> dcline p = dcline ppci"
  by (cases "areas ppc") (auto simp: ppc2ppci_select_def Let_def py_bind_eq_Inr)

lemma ppc2ppci_internal_case:
  assumes c: "ppc2ppci argsort run_userfcn ppc ppci net = Inr (ppc', ppci', net')"
    and u: "userfcn ppci = None"
  defines "Pg \<equiv> \<lambda>g. 0 < GEN_STATUS g \<and> BUS_TYPE (bus ppc' ! nat (astype_int (GEN_BUS g))) \<noteq> NONE"
  defines "Pb \<equiv> \<lambda>b. odd (astype_int (Re (BR_STATUS b))) \<and>
                      BUS_TYPE (bus ppc' ! nat (astype_int (Re (F_BUS b)))) \<noteq> NONE \<and>
                      BUS_TYPE (bus ppc' ! nat (astype_int (Re (T_BUS b)))) \<noteq> NONE"
  shows "gen ppci' = filter Pg (gen ppc')" "branch ppci' = filter Pb (branch ppc')"
    "internal ppci' = (internal ppci)\<lparr>gen_is := map Pg (gen ppc'), branch_is := map Pb (branch ppc')\<rparr>"
    "internal ppc' = internal ppc"
proof -
  from ppc2ppci_InrD [OF c] obtain ppc1 ppci1 e2i ppc3 sg ngp ppci2 where
      b: "ppc2ppci_bus ppc ppci = Inr (ppc1, ppci1, e2i)"
    and r: "ppc2ppci_renumber e2i (drop_empty_areas ppc1) = Inr ppc3"
    and s: "ppc2ppci_sort_gens argsort ppc3 = Inr (ppc', sg, ngp)"
    and sel: "ppc2ppci_select ppc' ppci1 = Inr ppci2"
    and cb: "ppc2ppci_callbacks run_userfcn ppc' ppci2 = Inr ppci'"
    by blast
  note ext = ppc2ppci_external_case [OF c]
  note sd = ppc2ppci_select_InrD [OF sel ext]
  have Pb: "(\<lambda>b. (astype_int (Re (BR_STATUS b))
                       AND of_bool (BUS_TYPE (bus ppc' ! nat (astype_int (Re (F_BUS b)))) \<noteq> NONE)
                       AND of_bool (BUS_TYPE (bus ppc' ! nat (astype_int (Re (T_BUS b)))) \<noteq> NONE)) \<noteq> 0) = Pb"
    unfolding Pb_def and_bools_iff ..
  have ui: "userfcn ppci1 = None" "internal ppci1 = internal ppci"
    using ppc2ppci_bus_InrD(2) [OF b] u by simp_all
  then have "userfcn ppci2 = None" using sd(5) by simp
  from ppc2ppci_callbacks_no_userfcn [OF this cb]
  have p: "ppci' = (case dcline ppc' of None \<Rightarrow> ppci2 | Some d \<Rightarrow> ppci2\<lparr>dcline := Some d\<rparr>)" .
  show "gen ppci' = filter Pg (gen ppc')"
    using p sd(1) by (simp add: Pg_def split: option.splits)
  show "branch ppci' = filter Pb (branch ppc')"
    using p sd(2) unfolding Pb by (simp split: option.splits)
  show "internal ppci' = (internal ppci)\<lparr>gen_is := map Pg (gen ppc'), branch_is := map Pb (branch ppc')\<rparr>"
    using p sd(3) ui(2) unfolding Pb by (simp add: Pg_def split: option.splits)
  have "internal ppc1 = internal ppc" using ppc2ppci_bus_InrD(1) [OF b] by simp
  moreover have "internal ppc3 = internal ppc1"
    using r by (cases "areas (drop_empty_areas ppc1)")
       (auto simp: ppc2ppci_renumber_def Let_def py_bind_eq_Inr drop_empty_areas_def split: if_splits)
  moreover have "internal ppc' = internal (ppc3\<lparr>gen := gen ppc'\<rparr>)"
    using ppc2ppci_sort_gens_InrD(2) [OF s] by simp
  ultimately show "internal ppc' = internal ppc" by simp
qed

text \<open>The definitions that evaluate the compiler on a concrete case.\<close>

lemmas ev = ppc2ppci_def ppc2ppci_bus_def ppc2ppci_renumber_def ppc2ppci_sort_gens_def
  ppc2ppci_gen_lookups_def ppc2ppci_select_def ppc2ppci_callbacks_def drop_empty_areas_def
  bus_status_at_def build_gen_lookups_def update_lookup_entries_def write_lookup_to_net_def
  np_put_def np_mask_def np_index_def py_get_def frame_len_def
  ex_case_def ex_net_def ex_bus_def ex_branch_def ex_gen_def init_ppc_def net0_def NONE_def
  argsort_stable_def Let_def astype_int_def ex2_ppc_def ex2_net_def ex_builders_def
  update_ppc_def update_ppc_builders_def ppc_key_def argsort_ties_reversed_def branch_row0_def







lemma update_ppc_InrD:
  assumes "update_ppc ext net seq = Inr (ppc2, ppci2, net2)"
  shows "\<exists>stored. net_ppc net (ppc_key seq) = Some stored \<and>
           ppc2 = update_ppc_builders ext (net\<lparr>net_is_elements := select_is_elements_numba ext net\<rparr>) seq stored \<and>
           bus ppci2 = filter (\<lambda>r. BUS_TYPE r \<noteq> NONE) (bus ppc2) \<and>
           internal ppci2 = internal stored \<and>
           np_mask (branch ppc2) (branch_is (internal ppc2)) = Inr (branch ppci2) \<and>
           np_mask (gen ppc2) (gen_is (internal ppc2)) = Inr (gen ppci2)"
  using assms
  by (auto simp: update_ppc_def Let_def py_bind_eq_Inr py_get_eq_Inr)

section \<open>Facts about the zero-sequence builders\<close>

lemma np_put_col_seq_in_range:
  "length idx = length vals \<Longrightarrow> \<forall>i\<in>set idx. 0 \<le> i \<and> i < int (length tab) \<Longrightarrow>
   np_put_col_seq upd tab idx vals =
     Inr (fold (\<lambda>(i, v) tab. tab[nat i := upd (tab ! nat i) v]) (zip idx vals) tab)"
proof (induction idx arbitrary: tab vals)
  case Nil
  then show ?case by simp
next
  case (Cons i idx)
  then obtain v vs where vals: "vals = v # vs" by (cases vals) auto
  with Cons show ?case by (simp add: np_index_in_range)
qed

lemma length_fold_put [simp]:
  "length (fold (\<lambda>(i, v) tab. tab[nat i := upd (tab ! nat i) v]) ps tab) = length tab"
  by (induction ps arbitrary: tab) auto

lemma fold_put_other:
  "j \<notin> nat ` set (map fst ps) \<Longrightarrow>
   fold (\<lambda>(i, v) tab. tab[nat i := upd (tab ! nat i) v]) ps tab ! j = tab ! j"
  by (induction ps arbitrary: tab) auto

lemma fold_put_nth:
  "distinct idx \<Longrightarrow> length idx = length vals \<Longrightarrow> k < length idx \<Longrightarrow>
   \<forall>i\<in>set idx. 0 \<le> i \<and> i < int (length tab) \<Longrightarrow>
   fold (\<lambda>(i, v) tab. tab[nat i := upd (tab ! nat i) v]) (zip idx vals) tab ! nat (idx ! k)
     = upd (tab ! nat (idx ! k)) (vals ! k)"
proof (induction idx arbitrary: tab vals k)
  case Nil
  then show ?case by simp
next
  case (Cons i idx)
  then obtain v vs where vals: "vals = v # vs" by (cases vals) auto
  let ?tab1 = "tab[nat i := upd (tab ! nat i) v]"
  show ?case
  proof (cases k)
    case 0
    have "nat i \<notin> nat ` set (map fst (zip idx vs))"
    proof
      assume "nat i \<in> nat ` set (map fst (zip idx vs))"
      then obtain j where j: "j \<in> set idx" "nat i = nat j"
        by (auto dest: set_zip_leftD)
      with Cons.prems have "i = j" by auto
      with j Cons.prems show False by auto
    qed
    then have "fold (\<lambda>(i, v) tab. tab[nat i := upd (tab ! nat i) v]) (zip idx vs) ?tab1 ! nat i = ?tab1 ! nat i"
      by (rule fold_put_other)
    moreover have "nat i < length tab" using Cons.prems by auto
    ultimately show ?thesis using 0 vals by simp
  next
    case (Suc k')
    with Cons.prems vals
    have "fold (\<lambda>(i, v) tab. tab[nat i := upd (tab ! nat i) v]) (zip idx vs) ?tab1 ! nat (idx ! k')
            = upd (?tab1 ! nat (idx ! k')) (vs ! k')"
      by (intro Cons.IH) auto
    moreover have "nat (idx ! k') \<noteq> nat i"
    proof
      assume e: "nat (idx ! k') = nat i"
      have m: "idx ! k' \<in> set idx" using Suc Cons.prems by auto
      with Cons.prems have "0 \<le> idx ! k'" "0 \<le> i" by auto
      with e have "idx ! k' = i" by simp
      with m Cons.prems show False by auto
    qed
    ultimately show ?thesis using Suc vals by simp
  qed
qed

lemma np_put_col_distinct:
  assumes "distinct idx" "length idx = length vals" "\<forall>i\<in>set idx. 0 \<le> i \<and> i < int (length tab)"
  shows "\<exists>tab'. np_put_col upd tab idx vals = Inr tab' \<and> length tab' = length tab \<and>
           (\<forall>k < length idx. tab' ! nat (idx ! k) = upd (tab ! nat (idx ! k)) (vals ! k)) \<and>
           (\<forall>j. int j \<notin> set idx \<longrightarrow> tab' ! j = tab ! j)"
proof -
  let ?t = "fold (\<lambda>(i, v) tab. tab[nat i := upd (tab ! nat i) v]) (zip idx vals) tab"
  have "np_put_col upd tab idx vals = Inr ?t"
    using assms by (simp add: np_put_col_def np_put_col_seq_in_range)
  moreover have "\<forall>k < length idx. ?t ! nat (idx ! k) = upd (tab ! nat (idx ! k)) (vals ! k)"
    using assms by (auto intro: fold_put_nth)
  moreover have "\<forall>j. int j \<notin> set idx \<longrightarrow> ?t ! j = tab ! j"
  proof (intro allI impI)
    fix j assume j: "int j \<notin> set idx"
    have "j \<notin> nat ` set (map fst (zip idx vals))"
    proof
      assume "j \<in> nat ` set (map fst (zip idx vals))"
      then obtain i where i: "i \<in> set idx" "j = nat i" by (auto dest: set_zip_leftD)
      with assms(3) have "int j = i" by auto
      with i j show False by simp
    qed
    then show "?t ! j = tab ! j" by (rule fold_put_other)
  qed
  ultimately show ?thesis by simp
qed

lemma np_take_Inl: "np_take a idx = Inl e \<Longrightarrow> e = IndexError"
proof (induction idx)
  case Nil
  then show ?case by simp
next
  case (Cons i idx)
  show ?case
  proof (cases "np_index (length a) i")
    case (Inl e')
    with Cons.prems show ?thesis by (auto simp: np_index_def split: if_splits)
  next
    case (Inr k)
    with Cons show ?thesis by (cases "np_take a idx") auto
  qed
qed

lemma np_put_col_seq_Inl: "np_put_col_seq upd tab idx vals = Inl e \<Longrightarrow> e = IndexError"
proof (induction upd tab idx vals rule: np_put_col_seq.induct)
  case (1 upd tab i js v vs)
  show ?case
  proof (cases "np_index (length tab) i")
    case (Inl e')
    with "1.prems" show ?thesis by (auto simp: np_index_def split: if_splits)
  next
    case (Inr k)
    with 1 show ?thesis by auto
  qed
qed simp_all

lemma np_put_col_Inl:
  "np_put_col upd tab idx vals = Inl e \<Longrightarrow> e = IndexError \<or> e = ValueError ''shape mismatch''"
  by (auto simp: np_put_col_def dest: np_put_col_seq_Inl split: if_splits)

lemma sum_by_group_Inl: "sum_by_group b v w = Inl e \<Longrightarrow> e = IndexError"
  by (auto simp: sum_by_group_def Let_def split: if_splits)

lemma py_bind_eq_Inl:
  "py_bind m f = Inl e \<longleftrightarrow> m = Inl e \<or> (\<exists>x. m = Inr x \<and> f x = Inl e)"
  by (cases m) simp_all

lemma column_eq: "column df name err = (case df name of None \<Rightarrow> Inl err | Some v \<Rightarrow> Inr v)"
  by (simp add: column_def)

lemma ext_grid_y0_columns:
  assumes c: "opt_mode net = ''sc'' \<longrightarrow>
       (\<exists>c. np_take (map (if c_case = ''max'' then C_MAX else C_MIN) (bus ppc)) eg_buses_ppc = Inr c)"
  shows "eg (''s_sc_'' @ c_case @ ''_mva'') = None \<Longrightarrow>
           ext_grid_y0 net ppc c_case eg_buses_ppc eg = Inl (s_sc_missing c_case)"
    and "eg (''s_sc_'' @ c_case @ ''_mva'') \<noteq> None \<Longrightarrow> eg (''rx_'' @ c_case) = None \<Longrightarrow>
           ext_grid_y0 net ppc c_case eg_buses_ppc eg = Inl (rx_missing c_case)"
    and "eg (''s_sc_'' @ c_case @ ''_mva'') \<noteq> None \<Longrightarrow> eg (''rx_'' @ c_case) \<noteq> None \<Longrightarrow>
           ext_grid_y0 net ppc c_case eg_buses_ppc eg \<noteq> Inl (s_sc_missing c_case) \<and>
           ext_grid_y0 net ppc c_case eg_buses_ppc eg \<noteq> Inl (rx_missing c_case)"
proof -
  show "eg (''s_sc_'' @ c_case @ ''_mva'') = None \<Longrightarrow>
           ext_grid_y0 net ppc c_case eg_buses_ppc eg = Inl (s_sc_missing c_case)"
    using c by (auto simp: ext_grid_y0_def column_eq)
  show "eg (''s_sc_'' @ c_case @ ''_mva'') \<noteq> None \<Longrightarrow> eg (''rx_'' @ c_case) = None \<Longrightarrow>
           ext_grid_y0 net ppc c_case eg_buses_ppc eg = Inl (rx_missing c_case)"
    using c by (auto simp: ext_grid_y0_def column_eq)
  show "ext_grid_y0 net ppc c_case eg_buses_ppc eg \<noteq> Inl (s_sc_missing c_case) \<and>
           ext_grid_y0 net ppc c_case eg_buses_ppc eg \<noteq> Inl (rx_missing c_case)"
    if s: "eg (''s_sc_'' @ c_case @ ''_mva'') \<noteq> None" and r: "eg (''rx_'' @ c_case) \<noteq> None"
  proof -
    from s r obtain s_sc rx where sr: "eg (''s_sc_'' @ c_case @ ''_mva'') = Some s_sc"
      "eg (''rx_'' @ c_case) = Some rx" by auto
    have "e \<noteq> s_sc_missing c_case \<and> e \<noteq> rx_missing c_case"
      if "ext_grid_y0 net ppc c_case eg_buses_ppc eg = Inl e" for e
      using that c sr
      by (auto simp: ext_grid_y0_def column_eq py_bind_eq_Inl Let_def series_mul_def
            s_sc_missing_def rx_missing_def
          split: if_splits option.splits)
    then show ?thesis by blast
  qed
qed


lemma eg_rows_None [simp]: "eg_rows m df name = None \<longleftrightarrow> df name = None"
  by (simp add: eg_rows_def)

lemma put_gs_bs:
  fixes tab :: "bus_row list"
  assumes d: "distinct ub" and r: "\<forall>i\<in>set ub. 0 \<le> i \<and> i < int (length tab)"
  shows "\<exists>tab2. py_bind (np_put_col (\<lambda>r v. r\<lparr>GS := v\<rparr>) tab ub (map g ub)) (\<lambda>bus1.
              py_bind (np_put_col (\<lambda>r v. r\<lparr>BS := v\<rparr>) bus1 ub (map h ub)) (\<lambda>bus2. Inr (f bus2)))
              = Inr (f tab2) \<and> length tab2 = length tab \<and>
           (\<forall>b \<in> set ub. tab2 ! nat b = (tab ! nat b)\<lparr>GS := g b, BS := h b\<rparr>) \<and>
           (\<forall>j. int j \<notin> set ub \<longrightarrow> tab2 ! j = tab ! j)"
proof -
  from np_put_col_distinct [OF d _ r, of "map g ub" "\<lambda>r v. r\<lparr>GS := v\<rparr>"] obtain tab1 where
    1: "np_put_col (\<lambda>r v. r\<lparr>GS := v\<rparr>) tab ub (map g ub) = Inr tab1" "length tab1 = length tab"
       "\<forall>k < length ub. tab1 ! nat (ub ! k) = (tab ! nat (ub ! k))\<lparr>GS := map g ub ! k\<rparr>"
       "\<forall>j. int j \<notin> set ub \<longrightarrow> tab1 ! j = tab ! j"
    by auto
  from r 1(2) have r1: "\<forall>i\<in>set ub. 0 \<le> i \<and> i < int (length tab1)" by simp
  from np_put_col_distinct [OF d _ r1, of "map h ub" "\<lambda>r v. r\<lparr>BS := v\<rparr>"] obtain tab2 where
    2: "np_put_col (\<lambda>r v. r\<lparr>BS := v\<rparr>) tab1 ub (map h ub) = Inr tab2" "length tab2 = length tab1"
       "\<forall>k < length ub. tab2 ! nat (ub ! k) = (tab1 ! nat (ub ! k))\<lparr>BS := map h ub ! k\<rparr>"
       "\<forall>j. int j \<notin> set ub \<longrightarrow> tab2 ! j = tab1 ! j"
    by auto
  have "\<forall>b \<in> set ub. tab2 ! nat b = (tab ! nat b)\<lparr>GS := g b, BS := h b\<rparr>"
  proof
    fix b assume "b \<in> set ub"
    then obtain k where k: "k < length ub" "ub ! k = b" by (auto simp: in_set_conv_nth)
    with 1(3) 2(3) show "tab2 ! nat b = (tab ! nat b)\<lparr>GS := g b, BS := h b\<rparr>" by auto
  qed
  with 1 2 show ?thesis by auto
qed

lemma ext_grid_shunt_result:
  assumes pre: "ext_grid_case net = Inr c_case"
      "array_lookup (lookups net) ''bus'' = Some bus_lookup"
      "is_mask (net_is_elements net) ''ext_grid'' = Some m"
      "np_mask (eg_bus (ext_grid net)) m = Inr eg_buses" "eg_buses \<noteq> []"
      "np_take bus_lookup eg_buses = Inr eg_buses_ppc"
    and y0: "ext_grid_y0 net ppc c_case eg_buses_ppc (eg_rows m (eg_float (ext_grid net))) = Inr y0_grid"
    and len: "length eg_buses_ppc \<le> length y0_grid"
    and rng: "\<forall>b \<in> set eg_buses_ppc. 0 \<le> b \<and> b < int (length (bus ppc))"
  shows "\<exists>bus'. add_ext_grid_sc_impedance_zero net ppc = Inr (ppc\<lparr>bus := bus'\<rparr>) \<and>
      length bus' = length (bus ppc) \<and>
      (\<forall>b \<in> set eg_buses_ppc.
         bus' ! nat b = (bus ppc ! nat b)\<lparr>GS := group_sum eg_buses_ppc (map Re y0_grid) b,
                                          BS := group_sum eg_buses_ppc (map Im y0_grid) b\<rparr>) \<and>
      (\<forall>j. int j \<notin> set eg_buses_ppc \<longrightarrow> bus' ! j = bus ppc ! j)"
proof -
  let ?ub = "sort (remdups eg_buses_ppc)"
  have unf: "add_ext_grid_sc_impedance_zero net ppc =
     py_bind (np_put_col (\<lambda>r v. r\<lparr>GS := v\<rparr>) (bus ppc) ?ub (map (group_sum eg_buses_ppc (map Re y0_grid)) ?ub)) (\<lambda>bus1.
     py_bind (np_put_col (\<lambda>r v. r\<lparr>BS := v\<rparr>) bus1 ?ub (map (group_sum eg_buses_ppc (map Im y0_grid)) ?ub)) (\<lambda>bus2.
     Inr (ppc\<lparr>bus := bus2\<rparr>)))"
    using pre y0 len
    by (simp add: add_ext_grid_sc_impedance_zero_def py_get_def sum_by_group_def Let_def)
  have d: "distinct ?ub" by simp
  have r: "\<forall>i\<in>set ?ub. 0 \<le> i \<and> i < int (length (bus ppc))" using rng by simp
  from put_gs_bs [OF d r, of "group_sum eg_buses_ppc (map Re y0_grid)"
      "group_sum eg_buses_ppc (map Im y0_grid)" "\<lambda>b. ppc\<lparr>bus := b\<rparr>"]
  show ?thesis unfolding unf by simp
qed


text \<open>
  All external grids in service, in mode \<open>sc\<close>: the mask keeps every row, so the filtered
  and the unfiltered columns agree, and the admittance of grid \<open>k\<close> is
  \<open>1 / (r0 + j x0)\<close> with \<open>x0 = x0x * x\<close>, \<open>r0 = r0x0 * x0\<close> and
  \<open>x = c / s_sc / sqrt(rx ** 2 + 1)\<close>, all of grid \<open>k\<close>, where \<open>c\<close> is the voltage factor of
  its bus. \<open>GS\<close> and \<open>BS\<close> of a bus that hosts external grids become the sums of the real
  and the imaginary parts of the admittances of the grids at that bus, whatever they held
  before. The divisors are not zero (numpy would give inf or nan there).
\<close>

lemma eg_rows_all:
  "df name = Some col \<Longrightarrow> length col = n \<Longrightarrow> eg_rows (replicate n True) df name = Some col"
proof -
  have "map fst (filter snd (zip col (replicate (length col) True))) = col"
    by (induction col) auto
  then show "df name = Some col \<Longrightarrow> length col = n \<Longrightarrow> eg_rows (replicate n True) df name = Some col"
    by (auto simp: eg_rows_def)
qed

lemma ext_grid_y0_all_in_service:
  assumes md: "opt_mode net = ''sc''"
    and cs: "c_case = ''max'' \<or> c_case = ''min''"
    and cols: "eg_float (ext_grid net) (''s_sc_'' @ c_case @ ''_mva'') = Some s_sc"
      "eg_float (ext_grid net) (''rx_'' @ c_case) = Some rx"
      "eg_float (ext_grid net) (''x0x_'' @ c_case) = Some x0x"
      "eg_float (ext_grid net) (''r0x0_'' @ c_case) = Some r0x0"
    and len: "length s_sc = n" "length rx = n" "length x0x = n" "length r0x0 = n"
      "length eg_buses_ppc = n"
    and rng: "\<forall>b \<in> set eg_buses_ppc. 0 \<le> b \<and> b < int (length (bus ppc))"
  shows "ext_grid_y0 net ppc c_case eg_buses_ppc (eg_rows (replicate n True) (eg_float (ext_grid net)))
     = Inr (map (\<lambda>k.
          1 / Complex
                (r0x0 ! k * (x0x ! k *
                   ((if c_case = ''max'' then C_MAX else C_MIN) (bus ppc ! nat (eg_buses_ppc ! k))
                      / s_sc ! k / sqrt ((rx ! k)\<^sup>2 + 1))))
                (x0x ! k *
                   ((if c_case = ''max'' then C_MAX else C_MIN) (bus ppc ! nat (eg_buses_ppc ! k))
                      / s_sc ! k / sqrt ((rx ! k)\<^sup>2 + 1))))
          [0..<n])"
proof -
  let ?C = "(if c_case = ''max'' then C_MAX else C_MIN) :: bus_row \<Rightarrow> real"
  have t: "np_take (map ?C (bus ppc)) eg_buses_ppc
             = Inr (map (\<lambda>i. map ?C (bus ppc) ! nat i) eg_buses_ppc)"
    using rng by (intro np_take_in_range) simp
  have md': "opt_mode net \<noteq> ''pf_3ph''" using md by simp
  have e: "ext_grid_y0 net ppc c_case eg_buses_ppc (eg_rows (replicate n True) (eg_float (ext_grid net)))
      = Inr (map2 (\<lambda>r0 x0. 1 / Complex r0 x0)
              (map2 (\<lambda>r x. r * x) r0x0
                 (map2 (*) x0x (map2 (\<lambda>z r. z / sqrt (r\<^sup>2 + 1))
                    (map2 (\<lambda>cv s. cv / s) (map (\<lambda>i. map ?C (bus ppc) ! nat i) eg_buses_ppc) s_sc) rx)))
              (map2 (*) x0x (map2 (\<lambda>z r. z / sqrt (r\<^sup>2 + 1))
                    (map2 (\<lambda>cv s. cv / s) (map (\<lambda>i. map ?C (bus ppc) ! nat i) eg_buses_ppc) s_sc) rx)))"
    using cs
  proof
    assume c: "c_case = ''max''"
    from cols have cols': "eg_float (ext_grid net) ''s_sc_max_mva'' = Some s_sc"
      "eg_float (ext_grid net) ''rx_max'' = Some rx"
      "eg_float (ext_grid net) ''x0x_max'' = Some x0x"
      "eg_float (ext_grid net) ''r0x0_max'' = Some r0x0"
      unfolding c by simp_all
    have r: "eg_rows (replicate n True) (eg_float (ext_grid net)) ''s_sc_max_mva'' = Some s_sc"
      "eg_rows (replicate n True) (eg_float (ext_grid net)) ''rx_max'' = Some rx"
      using cols' len by (simp_all add: eg_rows_all)
    show ?thesis
      unfolding ext_grid_y0_def c using md md' len t [unfolded c]
      by (simp add: r cols' column_eq series_mul_def Let_def)
  next
    assume c: "c_case = ''min''"
    from cols have cols': "eg_float (ext_grid net) ''s_sc_min_mva'' = Some s_sc"
      "eg_float (ext_grid net) ''rx_min'' = Some rx"
      "eg_float (ext_grid net) ''x0x_min'' = Some x0x"
      "eg_float (ext_grid net) ''r0x0_min'' = Some r0x0"
      unfolding c by simp_all
    have r: "eg_rows (replicate n True) (eg_float (ext_grid net)) ''s_sc_min_mva'' = Some s_sc"
      "eg_rows (replicate n True) (eg_float (ext_grid net)) ''rx_min'' = Some rx"
      using cols' len by (simp_all add: eg_rows_all)
    show ?thesis
      unfolding ext_grid_y0_def c using md md' len t [unfolded c]
      by (simp add: r cols' column_eq series_mul_def Let_def)
  qed
  define C :: "bus_row \<Rightarrow> real" where "C = ?C"
  have b: "nat (eg_buses_ppc ! i) < length (bus ppc)" if "i < n" for i
  proof -
    from that len have "eg_buses_ppc ! i \<in> set eg_buses_ppc" by simp
    with rng show ?thesis by auto
  qed
  have "map2 (\<lambda>r0 x0. 1 / Complex r0 x0)
              (map2 (\<lambda>r x. r * x) r0x0
                 (map2 (*) x0x (map2 (\<lambda>z r. z / sqrt (r\<^sup>2 + 1))
                    (map2 (\<lambda>cv s. cv / s) (map (\<lambda>i. map C (bus ppc) ! nat i) eg_buses_ppc) s_sc) rx)))
              (map2 (*) x0x (map2 (\<lambda>z r. z / sqrt (r\<^sup>2 + 1))
                    (map2 (\<lambda>cv s. cv / s) (map (\<lambda>i. map C (bus ppc) ! nat i) eg_buses_ppc) s_sc) rx))
        = map (\<lambda>k. 1 / Complex
                (r0x0 ! k * (x0x ! k * (C (bus ppc ! nat (eg_buses_ppc ! k)) / s_sc ! k / sqrt ((rx ! k)\<^sup>2 + 1))))
                (x0x ! k * (C (bus ppc ! nat (eg_buses_ppc ! k)) / s_sc ! k / sqrt ((rx ! k)\<^sup>2 + 1))))
          [0..<n]"
    by (rule nth_equalityI) (simp_all add: len b)
  then show ?thesis unfolding e C_def by (rule arg_cong [where f = Inr])
qed

lemma ext_grid_shunt_all_in_service:
  assumes md: "opt_mode net = ''sc''" "opt_case net = Some c_case"
    and cs: "c_case = ''max'' \<or> c_case = ''min''"
    and lk: "array_lookup (lookups net) ''bus'' = Some bus_lookup"
      "is_mask (net_is_elements net) ''ext_grid'' = Some (replicate n True)"
    and eb: "length (eg_bus (ext_grid net)) = n" "0 < n"
      "np_take bus_lookup (eg_bus (ext_grid net)) = Inr eg_buses_ppc"
    and cols: "eg_float (ext_grid net) (''s_sc_'' @ c_case @ ''_mva'') = Some s_sc"
      "eg_float (ext_grid net) (''rx_'' @ c_case) = Some rx"
      "eg_float (ext_grid net) (''x0x_'' @ c_case) = Some x0x"
      "eg_float (ext_grid net) (''r0x0_'' @ c_case) = Some r0x0"
    and len: "length s_sc = n" "length rx = n" "length x0x = n" "length r0x0 = n"
    and rng: "\<forall>b \<in> set eg_buses_ppc. 0 \<le> b \<and> b < int (length (bus ppc))"
  defines "x0 \<equiv> \<lambda>k. x0x ! k *
                   ((if c_case = ''max'' then C_MAX else C_MIN) (bus ppc ! nat (eg_buses_ppc ! k))
                      / s_sc ! k / sqrt ((rx ! k)\<^sup>2 + 1))"
  defines "y0 \<equiv> map (\<lambda>k. 1 / Complex (r0x0 ! k * x0 k) (x0 k)) [0..<n]"
  assumes fin: "\<forall>k < n. s_sc ! k \<noteq> 0 \<and> x0 k \<noteq> 0"
  shows "\<exists>bus'. add_ext_grid_sc_impedance_zero net ppc = Inr (ppc\<lparr>bus := bus'\<rparr>) \<and>
      length bus' = length (bus ppc) \<and>
      (\<forall>b \<in> set eg_buses_ppc.
         bus' ! nat b = (bus ppc ! nat b)\<lparr>GS := group_sum eg_buses_ppc (map Re y0) b,
                                          BS := group_sum eg_buses_ppc (map Im y0) b\<rparr>) \<and>
      (\<forall>j. int j \<notin> set eg_buses_ppc \<longrightarrow> bus' ! j = bus ppc ! j)"
proof -
  have ln: "length eg_buses_ppc = n"
  proof -
    from eb(3) obtain ys where "np_take bus_lookup (eg_bus (ext_grid net)) = Inr ys" by blast
    from np_take_InrD [OF eb(3)] eb(1) show ?thesis by simp
  qed
  have pre: "ext_grid_case net = Inr c_case"
      "array_lookup (lookups net) ''bus'' = Some bus_lookup"
      "is_mask (net_is_elements net) ''ext_grid'' = Some (replicate n True)"
      "np_mask (eg_bus (ext_grid net)) (replicate n True) = Inr (eg_bus (ext_grid net))"
      "eg_bus (ext_grid net) \<noteq> []"
      "np_take bus_lookup (eg_bus (ext_grid net)) = Inr eg_buses_ppc"
  proof -
    show "ext_grid_case net = Inr c_case" using md by (simp add: ext_grid_case_def)
    show "array_lookup (lookups net) ''bus'' = Some bus_lookup" by (rule lk)
    show "is_mask (net_is_elements net) ''ext_grid'' = Some (replicate n True)" by (rule lk)
    have "map fst (filter snd (zip xs (replicate (length xs) True))) = xs" for xs :: "int list"
      by (induction xs) auto
    with eb(1) show "np_mask (eg_bus (ext_grid net)) (replicate n True) = Inr (eg_bus (ext_grid net))"
      by (auto simp: np_mask_def)
    show "eg_bus (ext_grid net) \<noteq> []" using eb by auto
    show "np_take bus_lookup (eg_bus (ext_grid net)) = Inr eg_buses_ppc" by (rule eb)
  qed
  have y: "ext_grid_y0 net ppc c_case eg_buses_ppc (eg_rows (replicate n True) (eg_float (ext_grid net)))
             = Inr y0"
    unfolding y0_def x0_def by (rule ext_grid_y0_all_in_service [OF md(1) cs cols len ln rng])
  have l: "length eg_buses_ppc \<le> length y0" using ln by (simp add: y0_def)
  show ?thesis by (rule ext_grid_shunt_result [OF pre y l rng])
qed

text \<open>The definitions that evaluate the external-grid builder on a concrete case.\<close>

lemmas ev_eg = add_ext_grid_sc_impedance_zero_def ext_grid_y0_def ext_grid_case_def eg_rows_def
  column_def series_mul_def sum_by_group_def group_sum_def np_put_col_def np_mask_def np_index_def
  py_get_def ex_eg_net_def ex_eg_cols_def ex_eg_ppc_def ex_case_def ex_bus_def init_ppc_def net0_def
  s_sc_missing_def rx_missing_def Let_def

lemmas ev_eg2 = ev_eg ex_eg_cols2_def ex_eg_cols1_def ex_eg_cols3_def

section \<open>Facts about the transformer builder\<close>

lemmas ev_tr = add_trafo_sc_impedance_zero_def trafo_group_zero_def trafo_dispatch_zero_def
  ynyn_pass_def shunt_re_def shunt_im_def complex_less_def isdigit_def
  trafo_tap_lv_def trafo_z_sc_def trafo_r_sc_def trafo_z0_k_def trafo_z0_mag_def
  pi_z_temp_def pi_za_def pi_zb_def pi_zc_def
  sum_by_group_def group_sum_def np_put_col_def np_index_def py_get_def
  ex_trafo_def ex_trafo_net_def ex_trafo_ppc_def ex_net_branches_def ex_branch_builders_def
  ex_case_def ex_bus_def init_ppc_def net0_def branch_row0_def Let_def astype_int_def
  phase_shift_error_def unknown_group_error_def Complex_eq numeral_2_eq_2



lemma np_take_single:
  "np_index (length a) i = Inr k \<Longrightarrow> np_take a [i] = Inr [a ! k]"
  by simp


lemma zero_acc_eq:
  "acc\<lparr>acc_branch := a, buses_all := b, gs_all := g, bs_all := h\<rparr>
     = \<lparr>acc_branch = a, buses_all = b, gs_all = g, bs_all = h\<rparr>"
  by simp







text \<open>The vector groups without a ground path, and the two errors of the dispatch.\<close>

lemma no_ground_path_group:
  assumes "vg \<in> set [''Yy'', ''Yd'', ''Dy'', ''Dd'']"
    and "np_put_col (\<lambda>r v. r\<lparr>BR_STATUS := v\<rparr>) (acc_branch acc) (map fst trafos)
           (replicate (length trafos) 0) = Inr br0"
  shows "trafo_group_zero B net ppc bus_lookup vg trafos acc = Inr (acc\<lparr>acc_branch := br0\<rparr>)"
  using assms unfolding trafo_group_zero_def by (simp add: Let_def)

lemma phase_shift_suffix_rejected:
  assumes "vg \<noteq> []" and "isdigit (last vg)"
  shows "trafo_dispatch_zero vg ppc_idx lv_buses_ppc hv_buses_ppc in_service_v mva si0 z0_k z0_mag acc
           = Inl (phase_shift_error vg)"
proof -
  from assms have "vg \<notin> set [''Dyn'', ''YNd'', ''Yyn'', ''YNyn'', ''YNy'']"
    by (auto simp: isdigit_def)
  with assms show ?thesis unfolding trafo_dispatch_zero_def by (simp add: Let_def)
qed

lemma unknown_group_rejected:
  assumes "vg \<noteq> []" and "\<not> isdigit (last vg)"
    and "vg \<notin> set [''Dyn'', ''YNd'', ''Yyn'', ''YNyn'', ''YNy'']"
  shows "trafo_dispatch_zero vg ppc_idx lv_buses_ppc hv_buses_ppc in_service_v mva si0 z0_k z0_mag acc
           = Inl (unknown_group_error vg)"
  using assms unfolding trafo_dispatch_zero_def by (simp add: Let_def)

section \<open>Claims\<close>

text \<open>
  C5. The lookup remap \<open>_update_lookup_entries\<close>, applied with the old-to-new map
  \<open>e2i\<close> (which has an entry for every valid value of the lookup), returns normally,
  replaces every valid entry \<open>v \<ge> 0\<close> of the lookup by \<open>e2i[v]\<close>, leaves every negative
  "not present" entry as it is, keeps the length, and stores the array under the
  element's name.
\<close>

theorem update_lookup_entries_remap:
  assumes "\<forall>v \<in> set lookup. v < int (length e2i)"
  shows "\<exists>lookup' net'.
     update_lookup_entries net lookup e2i element = Inr (lookup', net') \<and>
     length lookup' = length lookup \<and>
     (\<forall>i < length lookup.
        (0 \<le> lookup ! i \<longrightarrow> lookup' ! i = e2i ! nat (lookup ! i)) \<and>
        (lookup ! i < 0 \<longrightarrow> lookup' ! i = lookup ! i)) \<and>
     array_lookup (lookups net') element = Some lookup'"
  using update_lookup_entries_eq [OF assms, of net element]
  by (simp add: write_lookup_to_net_def)

theorem update_lookup_entries_remap_witness:
  "update_lookup_entries net0 [2, -1, 0, 1] [1, 2, 0] ''bus''
   = Inr ([0, -1, 1, 2], write_lookup_to_net net0 ''bus'' [0, -1, 1, 2])"
proof -
  have h: "\<forall>v \<in> set [2, -1, 0, 1 :: int]. v < int (length [1, 2, 0 :: int])" by simp
  show ?thesis
    using update_lookup_entries_remap [OF h, of net0 "''bus''"]
    by (simp add: update_lookup_entries_def np_mask_def np_index_def Let_def)
qed

text \<open>
  C6. For every external case whose bus identifiers form a permutation of
  \<open>[0, number of buses)\<close>, the bus block of the compiler returns; the map \<open>e2i\<close>,
  restricted to the identifiers of the in-service (non-isolated) buses, is a bijection
  onto \<open>[0, n)\<close>, \<open>n\<close> the number of in-service buses, and sends the k-th in-service bus
  to k; the internal case holds exactly the in-service buses, in their order, with
  \<open>BUS_I\<close> values 0, 1, ..., n-1; compiling the compiled pair again returns the same
  bus tables (with the identity as \<open>e2i\<close>); and these are the bus tables of the whole
  compilation whenever it returns and no callback is registered.
\<close>

theorem ppc2ppci_bus_renumbering:
  fixes ppc ppci :: ppc
  defines "A \<equiv> filter (\<lambda>r. BUS_TYPE r \<noteq> NONE) (bus ppc)"
  assumes perm: "mset (map (\<lambda>r. astype_int (BUS_I r)) (bus ppc)) = mset (map int [0..<length (bus ppc)])"
  shows "\<exists>ppc1 ppci1 e2i.
     ppc2ppci_bus ppc ppci = Inr (ppc1, ppci1, e2i) \<and>
     bij_betw (\<lambda>i. e2i ! nat i) (set (map (\<lambda>r. astype_int (BUS_I r)) A)) {0..<int (length A)} \<and>
     map (\<lambda>r. e2i ! nat (astype_int (BUS_I r))) A = map int [0..<length A] \<and>
     bus ppci1 = map2 (\<lambda>r k. r\<lparr>BUS_I := real k\<rparr>) A [0..<length A] \<and>
     ppc2ppci_bus ppc1 ppci1 = Inr (ppc1, ppci1, map int [0..<length (bus ppc)]) \<and>
     (\<forall>argsort run_userfcn net ppc' ppci' net'.
        userfcn ppci = None \<longrightarrow>
        ppc2ppci argsort run_userfcn ppc ppci net = Inr (ppc', ppci', net') \<longrightarrow>
        bus ppci' = bus ppci1 \<and> bus ppc' = bus ppc1)"
proof -
  let ?f = "\<lambda>r. astype_int (BUS_I r)"
  let ?B = "filter (\<lambda>r. BUS_TYPE r = NONE) (bus ppc)"
  let ?N = "length (bus ppc)"
  let ?ppc1 = "ppc\<lparr>bus := map2 (\<lambda>r k. r\<lparr>BUS_I := real k\<rparr>) (A @ ?B) [0..<?N]\<rparr>"
  let ?ppci1 = "ppci\<lparr>bus := map2 (\<lambda>r k. r\<lparr>BUS_I := real k\<rparr>) A [0..<length A]\<rparr>"
  from ppc2ppci_bus_eq [OF perm, of ppci] obtain e2i where
    r: "ppc2ppci_bus ppc ppci = Inr (?ppc1, ?ppci1, e2i)"
    and e: "\<forall>k < ?N. e2i ! nat (?f ((A @ ?B) ! k)) = int k"
    unfolding A_def by blast
  have lenA: "length A \<le> ?N" unfolding A_def by simp
  have m: "map (\<lambda>r. e2i ! nat (?f r)) A = map int [0..<length A]"
  proof (intro nth_equalityI)
    show "length (map (\<lambda>r. e2i ! nat (?f r)) A) = length (map int [0..<length A])" by simp
    fix k assume "k < length (map (\<lambda>r. e2i ! nat (?f r)) A)"
    then have k: "k < length A" by simp
    with lenA e have "e2i ! nat (?f ((A @ ?B) ! k)) = int k" by simp
    with k show "map (\<lambda>r. e2i ! nat (?f r)) A ! k = map int [0..<length A] ! k"
      by (simp add: nth_append)
  qed
  have m': "map (\<lambda>i. e2i ! nat i) (map ?f A) = map int [0..<length A]"
    using m by (simp add: o_def)
  have "distinct (map (\<lambda>i. e2i ! nat i) (map ?f A))"
    unfolding m' by (simp add: distinct_map)
  then have inj: "inj_on (\<lambda>i. e2i ! nat i) (set (map ?f A))"
    by (simp only: distinct_map)
  have "(\<lambda>i. e2i ! nat i) ` set (map ?f A) = set (map (\<lambda>i. e2i ! nat i) (map ?f A))"
    by (simp only: set_map)
  also have "\<dots> = {0..<int (length A)}"
    unfolding m' by (simp add: image_int_atLeastLessThan)
  finally have bij: "bij_betw (\<lambda>i. e2i ! nat i) (set (map ?f A)) {0..<int (length A)}"
    using inj by (simp add: bij_betw_def)
  have again: "ppc2ppci_bus ?ppc1 ?ppci1 = Inr (?ppc1, ?ppci1, map int [0..<?N])"
    using ppc2ppci_bus_again [OF perm, of ppci] unfolding A_def by simp
  have full: "bus ppci' = bus ?ppci1 \<and> bus ppc' = bus ?ppc1"
    if u: "userfcn ppci = None"
      and c: "ppc2ppci argsort run_userfcn ppc ppci net = Inr (ppc', ppci', net')"
    for argsort run_userfcn net ppc' ppci' net'
  proof -
    from ppc2ppci_InrD [OF c] r obtain ppc3 sg ngp ppci2 where
        rn: "ppc2ppci_renumber e2i (drop_empty_areas ?ppc1) = Inr ppc3"
      and s: "ppc2ppci_sort_gens argsort ppc3 = Inr (ppc', sg, ngp)"
      and sel: "ppc2ppci_select ppc' ?ppci1 = Inr ppci2"
      and cb: "ppc2ppci_callbacks run_userfcn ppc' ppci2 = Inr ppci'"
      by auto
    from ppc2ppci_select_keeps [OF sel] u have k: "bus ppci2 = bus ?ppci1" "userfcn ppci2 = None"
      by simp_all
    from ppc2ppci_callbacks_no_userfcn [OF k(2) cb] k(1) have 1: "bus ppci' = bus ?ppci1"
      by (simp split: option.splits)
    have "bus ppc3 = bus ?ppc1"
      using ppc2ppci_renumber_InrD(1) [OF rn] by (simp add: drop_empty_areas_def)
    moreover have "bus ppc' = bus (ppc3\<lparr>gen := gen ppc'\<rparr>)"
      using ppc2ppci_sort_gens_InrD(2) [OF s] by simp
    ultimately have "bus ppc' = bus ?ppc1" by simp
    with 1 show ?thesis by simp
  qed
  show ?thesis
    apply (rule exI [of _ ?ppc1], rule exI [of _ ?ppci1], rule exI [of _ e2i])
    using r bij m again full by (simp del: map_map)
qed

theorem ppc2ppci_bus_renumbering_witness:
  "mset (map (\<lambda>r. astype_int (BUS_I r)) (bus (ex_case [ex_bus 2 1, ex_bus 0 4, ex_bus 1 3] [] [])))
     = mset (map int [0..<length (bus (ex_case [ex_bus 2 1, ex_bus 0 4, ex_bus 1 3] [] []))]) \<and>
   ppc2ppci_bus (ex_case [ex_bus 2 1, ex_bus 0 4, ex_bus 1 3] [] []) (ex_case [] [] [])
     = Inr (ex_case [ex_bus 0 1, ex_bus 1 3, ex_bus 2 4] [] [], ex_case [ex_bus 0 1, ex_bus 1 3] [] [],
            [2, 1, 0]) \<and>
   bij_betw (\<lambda>i. [2, 1, 0 :: int] ! nat i)
     (set (map (\<lambda>r. astype_int (BUS_I r)) [ex_bus 2 1, ex_bus 1 3])) {0..<2}"
proof -
  let ?C = "ex_case [ex_bus 2 1, ex_bus 0 4, ex_bus 1 3] [] []"
  have h: "mset (map (\<lambda>r. astype_int (BUS_I r)) (bus ?C)) = mset (map int [0..<length (bus ?C)])"
    by (simp add: ev)
  have r: "ppc2ppci_bus ?C (ex_case [] [] [])
     = Inr (ex_case [ex_bus 0 1, ex_bus 1 3, ex_bus 2 4] [] [], ex_case [ex_bus 0 1, ex_bus 1 3] [] [],
            [2, 1, 0])"
    by (simp add: ev)
  have f: "filter (\<lambda>r. BUS_TYPE r \<noteq> NONE) (bus ?C) = [ex_bus 2 1, ex_bus 1 3]"
    by (simp add: ev)
  from ppc2ppci_bus_renumbering [OF h, of "ex_case [] [] []"] obtain ppc1 ppci1 e2i where
    "ppc2ppci_bus ?C (ex_case [] [] []) = Inr (ppc1, ppci1, e2i)"
    "bij_betw (\<lambda>i. e2i ! nat i)
       (set (map (\<lambda>r. astype_int (BUS_I r)) (filter (\<lambda>r. BUS_TYPE r \<noteq> NONE) (bus ?C))))
       {0..<int (length (filter (\<lambda>r. BUS_TYPE r \<noteq> NONE) (bus ?C)))}"
    by blast
  with r f have "bij_betw (\<lambda>i. [2, 1, 0 :: int] ! nat i)
     (set (map (\<lambda>r. astype_int (BUS_I r)) [ex_bus 2 1, ex_bus 1 3])) {0..<2}"
    by simp
  with h r show ?thesis by blast
qed

text \<open>
  C2. When the compilation returns and no callback is registered, the internal generator
  table is the external (renumbered, reordered) one filtered by: \<open>GEN_STATUS\<close> positive
  and the bus type of the renumbered host bus not \<open>NONE\<close>. The branch status is a flag, 0
  or 1 (every writer of \<open>BR_STATUS\<close> in this file writes an in-service flag), and for such
  flags the internal branch table is the external one filtered by: \<open>BR_STATUS\<close> positive
  and both renumbered end buses of a type other than \<open>NONE\<close>. The code computes the branch
  flag as the bitwise and of the integer status with the two bus flags, which the second
  conjunct states for any status. All renumbered bus references are rows of the bus
  table, so every combination of statuses and bus types is covered.
\<close>

theorem ppc2ppci_inclusion_masks:
  assumes c: "ppc2ppci argsort run_userfcn ppc ppci net = Inr (ppc', ppci', net')"
    and u: "userfcn ppci = None"
  shows "gen ppci' =
           filter (\<lambda>g. 0 < GEN_STATUS g \<and>
                        BUS_TYPE (bus ppc' ! nat (astype_int (GEN_BUS g))) \<noteq> NONE) (gen ppc') \<and>
         branch ppci' =
           filter (\<lambda>b. odd (astype_int (Re (BR_STATUS b))) \<and>
                        BUS_TYPE (bus ppc' ! nat (astype_int (Re (F_BUS b)))) \<noteq> NONE \<and>
                        BUS_TYPE (bus ppc' ! nat (astype_int (Re (T_BUS b)))) \<noteq> NONE) (branch ppc') \<and>
         ((\<forall>b \<in> set (branch ppc'). BR_STATUS b = 0 \<or> BR_STATUS b = 1) \<longrightarrow>
          branch ppci' =
           filter (\<lambda>b. 0 < Re (BR_STATUS b) \<and>
                        BUS_TYPE (bus ppc' ! nat (astype_int (Re (F_BUS b)))) \<noteq> NONE \<and>
                        BUS_TYPE (bus ppc' ! nat (astype_int (Re (T_BUS b)))) \<noteq> NONE) (branch ppc')) \<and>
         (\<forall>g \<in> set (gen ppc'). nat (astype_int (GEN_BUS g)) < length (bus ppc')) \<and>
         (\<forall>b \<in> set (branch ppc'). nat (astype_int (Re (F_BUS b))) < length (bus ppc') \<and>
                                  nat (astype_int (Re (T_BUS b))) < length (bus ppc'))"
proof -
  note i = ppc2ppci_internal_case [OF c u]
  note e = ppc2ppci_external_case [OF c]
  have flags: "branch ppci' =
           filter (\<lambda>b. 0 < Re (BR_STATUS b) \<and>
                        BUS_TYPE (bus ppc' ! nat (astype_int (Re (F_BUS b)))) \<noteq> NONE \<and>
                        BUS_TYPE (bus ppc' ! nat (astype_int (Re (T_BUS b)))) \<noteq> NONE) (branch ppc')"
    if "\<forall>b \<in> set (branch ppc'). BR_STATUS b = 0 \<or> BR_STATUS b = 1"
    unfolding i(2) using that by (intro filter_cong) (auto simp: astype_int_def)
  have "\<forall>g \<in> set (gen ppc'). nat (astype_int (GEN_BUS g)) < length (bus ppc')"
    using e(2) by auto
  moreover have "\<forall>b \<in> set (branch ppc'). nat (astype_int (Re (F_BUS b))) < length (bus ppc') \<and>
                                  nat (astype_int (Re (T_BUS b))) < length (bus ppc')"
    using e(3,4) by auto
  ultimately show ?thesis using i(1,2) flags by blast
qed

theorem ppc2ppci_inclusion_masks_witness:
  "userfcn (ex_case [] [] []) = None \<and>
   (case ppc2ppci argsort_stable Inr ex2_ppc (ex_case [] [] []) ex2_net of
      Inl e \<Rightarrow> False
    | Inr (ppc', ppci', net') \<Rightarrow>
        bus ppc' = [ex_bus 0 1, ex_bus 1 3, ex_bus 2 4] \<and>
        branch ppc' = [ex_branch 2 1 1, ex_branch 0 1 1] \<and> branch ppci' = [ex_branch 0 1 1] \<and>
        gen ppc' = [ex_gen 0 7 1, ex_gen 1 5 1, ex_gen 1 6 1] \<and> gen ppci' = gen ppc')"
proof -
  obtain ppc' ppci' net' where
      r: "ppc2ppci argsort_stable Inr ex2_ppc (ex_case [] [] []) ex2_net = Inr (ppc', ppci', net')"
    and v: "bus ppc' = [ex_bus 0 1, ex_bus 1 3, ex_bus 2 4]"
      "branch ppc' = [ex_branch 2 1 1, ex_branch 0 1 1]"
      "gen ppc' = [ex_gen 0 7 1, ex_gen 1 5 1, ex_gen 1 6 1]"
    by (simp add: ev)
  have u: "userfcn (ex_case [] [] []) = None" by (simp add: ev)
  from ppc2ppci_inclusion_masks [OF r u] v
  have "branch ppci' = [ex_branch 0 1 1]" "gen ppci' = gen ppc'"
    by (simp_all add: ex_bus_def ex_branch_def ex_gen_def NONE_def astype_int_def)
  with r u v show ?thesis by simp
qed

text \<open>
  C3 (as amended). \<open>_ppc2ppci\<close> stores the branch and generator masks it computes in the
  internal cache of the internal case, \<open>ppci["internal"]\<close>: they select the internal
  branch and generator tables from the external ones. The internal cache of the external
  case \<open>ppc\<close> is left as it was. \<open>_update_ppc\<close> takes the case stored on the network, lets
  the builders update it, and slices its branch and generator tables by the masks held in
  that case's own cache, \<open>ppc["internal"]["branch_is"]\<close> and \<open>["gen_is"]\<close>, without
  computing a mask; its bus table is the in-service rows of the stored case with their
  \<open>BUS_I\<close> unchanged, so no renumbering happens.
\<close>

theorem masks_cached_in_internal_case:
  "(userfcn ppci = None \<and> ppc2ppci argsort run_userfcn ppc ppci net = Inr (ppc', ppci', net') \<longrightarrow>
      np_mask (branch ppc') (branch_is (internal ppci')) = Inr (branch ppci') \<and>
      np_mask (gen ppc') (gen_is (internal ppci')) = Inr (gen ppci') \<and>
      internal ppc' = internal ppc) \<and>
   (update_ppc ext unet seq = Inr (uppc, uppci, unet') \<longrightarrow>
      (\<exists>stored. net_ppc unet (ppc_key seq) = Some stored \<and>
         uppc = update_ppc_builders ext (unet\<lparr>net_is_elements := select_is_elements_numba ext unet\<rparr>) seq stored \<and>
         bus uppci = filter (\<lambda>r. BUS_TYPE r \<noteq> NONE) (bus uppc) \<and>
         internal uppci = internal stored) \<and>
      np_mask (branch uppc) (branch_is (internal uppc)) = Inr (branch uppci) \<and>
      np_mask (gen uppc) (gen_is (internal uppc)) = Inr (gen uppci))"
proof (intro conjI impI)
  assume a: "userfcn ppci = None \<and> ppc2ppci argsort run_userfcn ppc ppci net = Inr (ppc', ppci', net')"
  then have c: "ppc2ppci argsort run_userfcn ppc ppci net = Inr (ppc', ppci', net')"
    and u: "userfcn ppci = None" by simp_all
  note i = ppc2ppci_internal_case [OF c u]
  show "np_mask (branch ppc') (branch_is (internal ppci')) = Inr (branch ppci')"
    unfolding i(2,3) by (simp add: np_mask_self)
  show "np_mask (gen ppc') (gen_is (internal ppci')) = Inr (gen ppci')"
    unfolding i(1,3) by (simp add: np_mask_self)
  show "internal ppc' = internal ppc" by (rule i(4))
next
  assume a: "update_ppc ext unet seq = Inr (uppc, uppci, unet')"
  from update_ppc_InrD [OF a] obtain stored where
      s: "net_ppc unet (ppc_key seq) = Some stored"
         "uppc = update_ppc_builders ext (unet\<lparr>net_is_elements := select_is_elements_numba ext unet\<rparr>) seq stored"
      and p: "bus uppci = filter (\<lambda>r. BUS_TYPE r \<noteq> NONE) (bus uppc)" "internal uppci = internal stored"
      and m: "np_mask (branch uppc) (branch_is (internal uppc)) = Inr (branch uppci)"
         "np_mask (gen uppc) (gen_is (internal uppc)) = Inr (gen uppci)"
    by blast
  from p s show "\<exists>stored. net_ppc unet (ppc_key seq) = Some stored \<and>
         uppc = update_ppc_builders ext (unet\<lparr>net_is_elements := select_is_elements_numba ext unet\<rparr>) seq stored \<and>
         bus uppci = filter (\<lambda>r. BUS_TYPE r \<noteq> NONE) (bus uppc) \<and>
         internal uppci = internal stored" by blast
  show "np_mask (branch uppc) (branch_is (internal uppc)) = Inr (branch uppci)" by (rule m(1))
  show "np_mask (gen uppc) (gen_is (internal uppc)) = Inr (gen uppci)" by (rule m(2))
qed


theorem masks_cached_in_internal_case_witness:
  "userfcn (ex_case [] [] []) = None \<and>
   (case ppc2ppci argsort_stable Inr ex2_ppc (ex_case [] [] []) ex2_net of
      Inl e \<Rightarrow> False
    | Inr (ppc', ppci', net') \<Rightarrow>
        branch_is (internal ppci') = [False, True] \<and> gen_is (internal ppci') = [True, True, True] \<and>
        branch ppci' = [ex_branch 0 1 1] \<and> internal ppc' = internal ex2_ppc) \<and>
   (case update_ppc ex_builders ex2_update_net None of
      Inl e \<Rightarrow> False
    | Inr (ppc2, ppci2, net2) \<Rightarrow>
        ppc2 = ex2_stored \<and> branch ppci2 = [ex_branch 0 1 1] \<and>
        gen ppci2 = [ex_gen 0 7 1, ex_gen 1 5 1, ex_gen 1 6 1] \<and>
        bus ppci2 = [ex_bus 0 1, ex_bus 1 3])"
proof -
  obtain ppc' ppci' net' where
      r: "ppc2ppci argsort_stable Inr ex2_ppc (ex_case [] [] []) ex2_net = Inr (ppc', ppci', net')"
    and v: "branch ppc' = [ex_branch 2 1 1, ex_branch 0 1 1]"
      "branch_is (internal ppci') = [False, True]" "gen_is (internal ppci') = [True, True, True]"
    by (simp add: ev)
  obtain ppc2 ppci2 net2 where
      r2: "update_ppc ex_builders ex2_update_net None = Inr (ppc2, ppci2, net2)"
    and v2: "ppc2 = ex2_stored"
    by (simp add: ev ex2_stored_def ex2_update_net_def)
  have u: "userfcn (ex_case [] [] []) = None" by (simp add: ev)
  note t = masks_cached_in_internal_case [where ppci = "ex_case [] [] []" and argsort = argsort_stable
      and run_userfcn = Inr and ppc = ex2_ppc and net = ex2_net and ppc' = ppc' and ppci' = ppci'
      and net' = net' and ext = ex_builders and unet = ex2_update_net and seq = None
      and uppc = ppc2 and uppci = ppci2 and unet' = net2]
  from t r u have t1: "np_mask (branch ppc') (branch_is (internal ppci')) = Inr (branch ppci')"
    "internal ppc' = internal ex2_ppc" by blast+
  from t1(1) v have 1: "branch ppci' = [ex_branch 0 1 1]"
    by (simp add: np_mask_def)
  from t r2 have t2: "np_mask (branch ppc2) (branch_is (internal ppc2)) = Inr (branch ppci2)"
    "np_mask (gen ppc2) (gen_is (internal ppc2)) = Inr (gen ppci2)"
    "bus ppci2 = filter (\<lambda>r. BUS_TYPE r \<noteq> NONE) (bus ppc2)" by blast+
  have b: "branch ppc2 = [ex_branch 2 1 1, ex_branch 0 1 1]" "branch_is (internal ppc2) = [False, True]"
    "gen ppc2 = [ex_gen 0 7 1, ex_gen 1 5 1, ex_gen 1 6 1]" "gen_is (internal ppc2) = [True, True, True]"
    "bus ppc2 = [ex_bus 0 1, ex_bus 1 3, ex_bus 2 4]"
    by (simp_all add: v2 ex2_stored_def ex_case_def)
  from t2(1) b have 2: "branch ppci2 = [ex_branch 0 1 1]" by (simp add: np_mask_def)
  from t2(2) b have 3: "gen ppci2 = [ex_gen 0 7 1, ex_gen 1 5 1, ex_gen 1 6 1]" by (simp add: np_mask_def)
  from t2(3) b have 4: "bus ppci2 = [ex_bus 0 1, ex_bus 1 3]" by (simp add: ex_bus_def NONE_def)
  from r r2 u v v2 1 t1(2) 2 3 4 show ?thesis by simp
qed

theorem masks_cached_in_internal_case_counterexample:
  "case ppc2ppci argsort_stable Inr ex2_ppc (ex_case [] [] []) ex2_net of
      Inl e \<Rightarrow> False
    | Inr (ppc', ppci', net') \<Rightarrow>
        branch_is (internal ppci') = [False, True] \<and> gen_is (internal ppci') = [True, True, True] \<and>
        branch_is (internal ppc') = [] \<and> gen_is (internal ppc') = [] \<and>
        update_ppc ex_builders (net'\<lparr>net_ppc := [''_ppc'' \<mapsto> ppc']\<rparr>) None = Inl IndexError"
  by (simp add: ev)




text \<open>
  C9. Under zero-sequence branch construction, if the branch lookup has the key
  \<open>trafo3w\<close> (a three-winding transformer is present), \<open>_build_branch_ppc_zero\<close> raises
  an error and returns no result, whatever the lines and two-winding transformers are.
\<close>

theorem three_winding_rejected:
  assumes "branch_lookup (lookups (snd (initialize_branch_lookup B net))) ''trafo3w'' \<noteq> None"
  shows "\<exists>e. build_branch_ppc_zero B net ppc = Inl e"
proof (cases "initialize_branch_lookup B net")
  case (Pair len net1)
  let ?ppc1 = "ppc\<lparr>branch := replicate len branch_row0\<rparr>"
  show ?thesis
  proof (cases "add_line_sc_impedance_zero net1 ?ppc1")
    case (Inl e)
    with Pair show ?thesis by (simp add: build_branch_ppc_zero_def)
  next
    case line: (Inr ppc2)
    show ?thesis
    proof (cases "add_trafo_sc_impedance_zero B net1 ppc2")
      case (Inl e)
      with Pair line show ?thesis by (simp add: build_branch_ppc_zero_def)
    next
      case (Inr ppc3)
      with Pair line assms show ?thesis by (simp add: build_branch_ppc_zero_def)
    qed
  qed
qed

theorem three_winding_rejected_witness:
  "branch_lookup (lookups (snd (initialize_branch_lookup (ex_branch_builders 1)
      (ex_net_branches [''trafo3w'' \<mapsto> (0, 1)])))) ''trafo3w'' \<noteq> None \<and>
   build_branch_ppc_zero (ex_branch_builders 1) (ex_net_branches [''trafo3w'' \<mapsto> (0, 1)])
      (ex_case [ex_bus 0 3, ex_bus 1 1] [] [])
     = Inl (TypeError ''NotImplementedType object is not callable'')"
proof -
  have h: "branch_lookup (lookups (snd (initialize_branch_lookup (ex_branch_builders 1)
      (ex_net_branches [''trafo3w'' \<mapsto> (0, 1)])))) ''trafo3w'' \<noteq> None"
    by (simp add: ex_branch_builders_def ex_net_branches_def net0_def)
  from three_winding_rejected [OF h, of "ex_case [ex_bus 0 3, ex_bus 1 1] [] []"]
  obtain e where "build_branch_ppc_zero (ex_branch_builders 1) (ex_net_branches [''trafo3w'' \<mapsto> (0, 1)])
      (ex_case [ex_bus 0 3, ex_bus 1 1] [] []) = Inl e" by blast
  moreover have "build_branch_ppc_zero (ex_branch_builders 1) (ex_net_branches [''trafo3w'' \<mapsto> (0, 1)])
      (ex_case [ex_bus 0 3, ex_bus 1 1] [] [])
     = Inl (TypeError ''NotImplementedType object is not callable'')"
    by (simp add: build_branch_ppc_zero_def add_line_sc_impedance_zero_def
        add_trafo_sc_impedance_zero_def ex_branch_builders_def ex_net_branches_def net0_def)
  ultimately show ?thesis using h by simp
qed

text \<open>
  C8. When \<open>_add_ext_grid_sc_impedance_zero\<close> runs with at least one in-service external
  grid (and the lookups before the column checks succeed), with \<open>case\<close> the short-circuit
  case option in mode \<open>sc\<close> and \<open>"max"\<close> in every other mode: it raises the ValueError
  about \<open>s_sc_<case>_mva\<close> if that column is absent from the external-grid table; it
  raises the ValueError about \<open>rx_<case>\<close> if that column is absent (and the first is
  present); and if both are present it raises neither of them.
\<close>

theorem ext_grid_missing_columns:
  assumes pre: "ext_grid_case net = Inr c_case"
      "array_lookup (lookups net) ''bus'' = Some bus_lookup"
      "is_mask (net_is_elements net) ''ext_grid'' = Some m"
      "np_mask (eg_bus (ext_grid net)) m = Inr eg_buses" "eg_buses \<noteq> []"
      "np_take bus_lookup eg_buses = Inr eg_buses_ppc"
    and c: "opt_mode net = ''sc'' \<longrightarrow>
       (\<exists>c. np_take (map (if c_case = ''max'' then C_MAX else C_MIN) (bus ppc)) eg_buses_ppc = Inr c)"
  shows "(opt_mode net \<noteq> ''sc'' \<longrightarrow> c_case = ''max'') \<and>
         (opt_mode net = ''sc'' \<longrightarrow> opt_case net = Some c_case) \<and>
         (eg_float (ext_grid net) (''s_sc_'' @ c_case @ ''_mva'') = None \<longrightarrow>
            add_ext_grid_sc_impedance_zero net ppc = Inl (s_sc_missing c_case)) \<and>
         (eg_float (ext_grid net) (''s_sc_'' @ c_case @ ''_mva'') \<noteq> None \<and>
          eg_float (ext_grid net) (''rx_'' @ c_case) = None \<longrightarrow>
            add_ext_grid_sc_impedance_zero net ppc = Inl (rx_missing c_case)) \<and>
         (eg_float (ext_grid net) (''s_sc_'' @ c_case @ ''_mva'') \<noteq> None \<and>
          eg_float (ext_grid net) (''rx_'' @ c_case) \<noteq> None \<longrightarrow>
            add_ext_grid_sc_impedance_zero net ppc \<noteq> Inl (s_sc_missing c_case) \<and>
            add_ext_grid_sc_impedance_zero net ppc \<noteq> Inl (rx_missing c_case))"
proof -
  let ?eg = "eg_rows m (eg_float (ext_grid net))"
  let ?y0 = "ext_grid_y0 net ppc c_case eg_buses_ppc ?eg"
  have unf: "add_ext_grid_sc_impedance_zero net ppc =
     py_bind ?y0 (\<lambda>y0_grid.
     py_bind (sum_by_group eg_buses_ppc (map Re y0_grid) (map Im y0_grid)) (\<lambda>(buses, gs, bs).
     py_bind (np_put_col (\<lambda>r v. r\<lparr>GS := v\<rparr>) (bus ppc) buses gs) (\<lambda>bus1.
     py_bind (np_put_col (\<lambda>r v. r\<lparr>BS := v\<rparr>) bus1 buses bs) (\<lambda>bus2.
     Inr (ppc\<lparr>bus := bus2\<rparr>)))))"
    using pre by (simp add: add_ext_grid_sc_impedance_zero_def py_get_def)
  note y = ext_grid_y0_columns [OF c, of ?eg]
  have 1: "c_case = ''max''" if "opt_mode net \<noteq> ''sc''"
    using pre(1) that by (simp add: ext_grid_case_def)
  have 2: "opt_case net = Some c_case" if "opt_mode net = ''sc''"
    using pre(1) that by (simp add: ext_grid_case_def split: option.splits)
  have 3: "add_ext_grid_sc_impedance_zero net ppc = Inl (s_sc_missing c_case)"
    if "eg_float (ext_grid net) (''s_sc_'' @ c_case @ ''_mva'') = None"
    using y(1) that by (simp add: unf)
  have 4: "add_ext_grid_sc_impedance_zero net ppc = Inl (rx_missing c_case)"
    if "eg_float (ext_grid net) (''s_sc_'' @ c_case @ ''_mva'') \<noteq> None"
       "eg_float (ext_grid net) (''rx_'' @ c_case) = None"
    using y(2) that by (simp add: unf)
  have 5: "add_ext_grid_sc_impedance_zero net ppc \<noteq> Inl (s_sc_missing c_case) \<and>
           add_ext_grid_sc_impedance_zero net ppc \<noteq> Inl (rx_missing c_case)"
    if p: "eg_float (ext_grid net) (''s_sc_'' @ c_case @ ''_mva'') \<noteq> None"
       "eg_float (ext_grid net) (''rx_'' @ c_case) \<noteq> None"
  proof -
    from y(3) p have ny: "?y0 \<noteq> Inl (s_sc_missing c_case)" "?y0 \<noteq> Inl (rx_missing c_case)"
      by simp_all
    have "e \<noteq> s_sc_missing c_case \<and> e \<noteq> rx_missing c_case"
      if "add_ext_grid_sc_impedance_zero net ppc = Inl e" for e
      using that ny unfolding unf
      by (auto simp: py_bind_eq_Inl s_sc_missing_def rx_missing_def
          dest!: sum_by_group_Inl np_put_col_Inl)
    then show ?thesis by blast
  qed
  from 1 2 3 4 5 show ?thesis by blast
qed


theorem ext_grid_missing_columns_witness:
  "add_ext_grid_sc_impedance_zero
      (ex_eg_net ''sc'' (Some ''max'') [0] [True] [''rx_max'' \<mapsto> [0]]) ex_eg_ppc
     = Inl (s_sc_missing ''max'') \<and>
   add_ext_grid_sc_impedance_zero
      (ex_eg_net ''pf_3ph'' None [0] [True] [''s_sc_max_mva'' \<mapsto> [1]]) ex_eg_ppc
     = Inl (rx_missing ''max'') \<and>
   add_ext_grid_sc_impedance_zero
      (ex_eg_net ''sc'' (Some ''max'') [0, 0] [True, True] ex_eg_cols) ex_eg_ppc
     = Inr (ex_case [(ex_bus 0 3)\<lparr>GS := 1, BS := - 1\<rparr>, ex_bus 1 1] [] [])"
proof -
  let ?n1 = "ex_eg_net ''sc'' (Some ''max'') [0] [True] [''rx_max'' \<mapsto> [0]]"
  let ?n2 = "ex_eg_net ''pf_3ph'' None [0] [True] [''s_sc_max_mva'' \<mapsto> [1]]"
  have pre1: "ext_grid_case ?n1 = Inr ''max''"
      "array_lookup (lookups ?n1) ''bus'' = Some [0, 1]"
      "is_mask (net_is_elements ?n1) ''ext_grid'' = Some [True]"
      "np_mask (eg_bus (ext_grid ?n1)) [True] = Inr [0]" "[0 :: int] \<noteq> []"
      "np_take [0, 1] [0 :: int] = Inr [0 :: int]"
    by (simp_all add: ev_eg)
  have c1: "opt_mode ?n1 = ''sc'' \<longrightarrow>
       (\<exists>c. np_take (map (if ''max'' = ''max'' then C_MAX else C_MIN) (bus ex_eg_ppc)) [0] = Inr c)"
    by (simp add: ev_eg)
  have a1: "eg_float (ext_grid ?n1) (''s_sc_'' @ ''max'' @ ''_mva'') = None"
    by (simp add: ev_eg)
  from ext_grid_missing_columns [OF pre1 c1] a1
  have 1: "add_ext_grid_sc_impedance_zero ?n1 ex_eg_ppc = Inl (s_sc_missing ''max'')" by blast
  have pre2: "ext_grid_case ?n2 = Inr ''max''"
      "array_lookup (lookups ?n2) ''bus'' = Some [0, 1]"
      "is_mask (net_is_elements ?n2) ''ext_grid'' = Some [True]"
      "np_mask (eg_bus (ext_grid ?n2)) [True] = Inr [0]" "[0 :: int] \<noteq> []"
      "np_take [0, 1] [0 :: int] = Inr [0 :: int]"
    by (simp_all add: ev_eg)
  have c2: "opt_mode ?n2 = ''sc'' \<longrightarrow>
       (\<exists>c. np_take (map (if ''max'' = ''max'' then C_MAX else C_MIN) (bus ex_eg_ppc)) [0] = Inr c)"
    by (simp add: ev_eg)
  have a2: "eg_float (ext_grid ?n2) (''s_sc_'' @ ''max'' @ ''_mva'') \<noteq> None \<and>
            eg_float (ext_grid ?n2) (''rx_'' @ ''max'') = None"
    by (simp add: ev_eg)
  from ext_grid_missing_columns [OF pre2 c2] a2
  have 2: "add_ext_grid_sc_impedance_zero ?n2 ex_eg_ppc = Inl (rx_missing ''max'')" by blast
  have 3: "add_ext_grid_sc_impedance_zero
      (ex_eg_net ''sc'' (Some ''max'') [0, 0] [True, True] ex_eg_cols) ex_eg_ppc
     = Inr (ex_case [(ex_bus 0 3)\<lparr>GS := 1, BS := - 1\<rparr>, ex_bus 1 1] [] [])"
    by (simp add: ev_eg Re_divide Im_divide power2_eq_square)
  from 1 2 3 show ?thesis by blast
qed

text \<open>
  C10. Two external grids, at bus 0 and at bus 1, that differ in \<open>x0x_max\<close>, the first one
  out of service. \<open>x_grid\<close> holds the in-service grid only, while \<open>x0x\<close> and \<open>r0x0\<close> are read
  from \<open>net.ext_grid\<close>, the unfiltered table, so \<open>y0_grid\<close> has a row for each of the two
  grids and \<open>_sum_by_group\<close> pairs bus 1 with row 0: bus 1 receives \<open>1/2 - 1/2 j\<close>, the
  admittance from the ratios of the grid at bus 0, and not \<open>1/6 - 1/6 j\<close>, the admittance
  of its own grid, which it receives when both grids are in service or when its grid is
  alone in the table. With three grids of which two are in service the product of the
  columns raises ValueError. (When every external grid is in service the claim holds, by
  assignment: \<open>ext_grid_shunt_all_in_service\<close>.)
\<close>

theorem ext_grid_out_of_service_misaligned:
  "add_ext_grid_sc_impedance_zero
     (ex_eg_net ''sc'' (Some ''max'') [0, 1] [False, True] ex_eg_cols2)
     (ex_case [ex_bus 0 3, ex_bus 1 1] [] [])
   = Inr (ex_case [ex_bus 0 3, (ex_bus 1 1)\<lparr>GS := 1 / 2, BS := - (1 / 2)\<rparr>] [] []) \<and>
   add_ext_grid_sc_impedance_zero
     (ex_eg_net ''sc'' (Some ''max'') [0, 1] [True, True] ex_eg_cols2)
     (ex_case [ex_bus 0 3, ex_bus 1 1] [] [])
   = Inr (ex_case [(ex_bus 0 3)\<lparr>GS := 1 / 2, BS := - (1 / 2)\<rparr>,
                   (ex_bus 1 1)\<lparr>GS := 1 / 6, BS := - (1 / 6)\<rparr>] [] []) \<and>
   add_ext_grid_sc_impedance_zero
     (ex_eg_net ''sc'' (Some ''max'') [1] [True] ex_eg_cols1)
     (ex_case [ex_bus 0 3, ex_bus 1 1] [] [])
   = Inr (ex_case [ex_bus 0 3, (ex_bus 1 1)\<lparr>GS := 1 / 6, BS := - (1 / 6)\<rparr>] [] []) \<and>
   add_ext_grid_sc_impedance_zero
     (ex_eg_net ''sc'' (Some ''max'') [0, 1, 1] [False, True, True] ex_eg_cols3)
     (ex_case [ex_bus 0 3, ex_bus 1 1] [] [])
   = Inl (ValueError ''operands could not be broadcast together'')"
proof -
  have 1: "add_ext_grid_sc_impedance_zero
     (ex_eg_net ''sc'' (Some ''max'') [0, 1] [False, True] ex_eg_cols2)
     (ex_case [ex_bus 0 3, ex_bus 1 1] [] [])
   = Inr (ex_case [ex_bus 0 3, (ex_bus 1 1)\<lparr>GS := 1 / 2, BS := - (1 / 2)\<rparr>] [] [])"
    by (simp add: ev_eg2 Re_divide Im_divide power2_eq_square)
  have 2: "add_ext_grid_sc_impedance_zero
     (ex_eg_net ''sc'' (Some ''max'') [0, 1] [True, True] ex_eg_cols2)
     (ex_case [ex_bus 0 3, ex_bus 1 1] [] [])
   = Inr (ex_case [(ex_bus 0 3)\<lparr>GS := 1 / 2, BS := - (1 / 2)\<rparr>,
                   (ex_bus 1 1)\<lparr>GS := 1 / 6, BS := - (1 / 6)\<rparr>] [] [])"
    by (simp add: ev_eg2 Re_divide Im_divide power2_eq_square)
  have 3: "add_ext_grid_sc_impedance_zero
     (ex_eg_net ''sc'' (Some ''max'') [1] [True] ex_eg_cols1)
     (ex_case [ex_bus 0 3, ex_bus 1 1] [] [])
   = Inr (ex_case [ex_bus 0 3, (ex_bus 1 1)\<lparr>GS := 1 / 6, BS := - (1 / 6)\<rparr>] [] [])"
    by (simp add: ev_eg2 Re_divide Im_divide power2_eq_square)
  have 4: "add_ext_grid_sc_impedance_zero
     (ex_eg_net ''sc'' (Some ''max'') [0, 1, 1] [False, True, True] ex_eg_cols3)
     (ex_case [ex_bus 0 3, ex_bus 1 1] [] [])
   = Inl (ValueError ''operands could not be broadcast together'')"
    by (simp add: ev_eg2)
  from 1 2 3 4 show ?thesis by blast
qed




text \<open>
  C7. A transformer whose vector group is the empty string: the group is not one of
  \<open>Yy, Yd, Dy, Dd\<close> and not one of the five implemented groups, so the builder reaches
  \<open>vector_group[-1].isdigit()\<close>, which raises IndexError before either ValueError can be
  raised. (For the four groups without a ground path, for a non-empty group that ends
  in a digit and for any other non-empty unknown group the claim holds:
  \<open>no_ground_path_group\<close>, \<open>phase_shift_suffix_rejected\<close>, \<open>unknown_group_rejected\<close>.)
\<close>

theorem empty_vector_group_index_error:
  "add_trafo_sc_impedance_zero (ex_branch_builders 1) (ex_trafo_net [ex_trafo [] (1/2) True])
     (ex_trafo_ppc 1) = Inl IndexError \<and>
   IndexError \<noteq> unknown_group_error [] \<and> IndexError \<noteq> phase_shift_error []"
  by (simp add: ev_tr)

end
